theory Spec2Isabelle
  imports Main "HOL-Library.Sublist" "HOL-Library.AList"
begin


section \<open>Python values, exceptions and callbacks\<close>

text \<open>
  An exception object is its class, given as the names of \<open>type(e).__mro__\<close> from the
  class itself down to \<open>object\<close>, the class attribute \<open>code\<close> (HTTP exceptions carry
  one), its message (the \<open>description\<close> of an HTTP exception) and its \<open>args\<close>.
\<close>

datatype exn =
  Exn (exc_mro: "string list") (exc_code: "int option") (exc_msg: string)
      (exc_args: "string list")

definition isinstance_exn :: "exn \<Rightarrow> string \<Rightarrow> bool" where
  "isinstance_exn e cls = (cls \<in> set (exc_mro e))"

definition RuntimeError :: "string \<Rightarrow> exn" where
  "RuntimeError msg = Exn [''RuntimeError'', ''Exception'', ''BaseException'', ''object''] None msg [msg]"

definition TypeError :: "string \<Rightarrow> exn" where
  "TypeError msg = Exn [''TypeError'', ''Exception'', ''BaseException'', ''object''] None msg [msg]"

definition AssertionError :: "string \<Rightarrow> exn" where
  "AssertionError msg =
     Exn [''AssertionError'', ''Exception'', ''BaseException'', ''object''] None msg [msg]"

definition AttributeError :: "string \<Rightarrow> exn" where
  "AttributeError msg =
     Exn [''AttributeError'', ''Exception'', ''BaseException'', ''object''] None msg [msg]"

definition KeyError :: "string \<Rightarrow> exn" where
  "KeyError msg =
     Exn [''KeyError'', ''LookupError'', ''Exception'', ''BaseException'', ''object''] None msg [msg]"

definition ModuleNotFoundError :: "string \<Rightarrow> exn" where
  "ModuleNotFoundError name =
     Exn [''ModuleNotFoundError'', ''ImportError'', ''Exception'', ''BaseException'', ''object'']
       None (''No module named '' @ [CHR 0x27] @ name @ [CHR 0x27])
       [''No module named '' @ [CHR 0x27] @ name @ [CHR 0x27]]"

definition InternalServerError :: exn where
  "InternalServerError =
     Exn [''InternalServerError'', ''HTTPException'', ''Exception'', ''BaseException'',
          ''object''] (Some 500) [] []"

text \<open>
  The values a view, a callback or an error handler can return. \<open>'r\<close> is the type of
  the objects of the application's \<open>response_class\<close>.
\<close>

datatype 'r pyval =
    PNone
  | PStr string
  | PBytes string
  | PByteArray string
  | PInt int
  | PTuple "'r pyval list"
  | PList "'r pyval list"
  | PDict "(string \<times> 'r pyval) list"
  | PHeaders "(string \<times> string) list"
  | PResponse 'r
  | PExc exn
  | PObject string

text \<open>
  The framework calls user code in a fixed number of roles. Every call is recorded in the
  trace of the world with its role, the name of the function and its arguments; log
  records and signals are recorded too.
\<close>

datatype role =
    BeforeFirstRequest | UrlValuePreprocessor | BeforeRequest | ViewFunction
  | AfterRequest | ErrorHandler | TeardownRequest | TeardownAppcontext

datatype 'r event =
    Called role string "'r pyval list"
  | Signal string "'r pyval list"
  | Logged string

text \<open>
  What \<open>add_url_rule\<close> can be given as \<open>methods\<close>, and what the attributes \<open>methods\<close>
  and \<open>required_methods\<close> of a view function can hold: a single string, an iterable
  (given by its items in the order of iteration; a list, a tuple or a set, so that it is
  false exactly when it has no item), or an object of another class, which cannot be
  iterated over, given by the name of its class and its truth value. An item is a string
  or an object of another class that has no method \<open>upper\<close> (an integer, \<open>None\<close>), given
  by the name of its class.
\<close>

datatype method_item = Item_str string | Item_other string

datatype methods_arg =
    Methods_str string
  | Methods_iter "method_item list"
  | Methods_other string bool

text \<open>
  A Python function of the application: its \<open>__name__\<close>, its identity as an object
  (\<open>id(f)\<close>: two records stand for the same function object exactly when they agree on
  it), the attributes \<open>add_url_rule\<close> reads from it (\<open>cb_methods\<close> is \<open>None\<close> when the
  attribute is absent or \<open>None\<close>), and what a call does to the state of the application's
  own code (\<open>'u\<close>): it returns a value or raises.
\<close>

record ('u, 'r) callback =
  cb_name :: string
  cb_id :: nat
  cb_methods :: "methods_arg option"
  cb_required_methods :: methods_arg
  cb_provide_automatic_options :: "bool option"
  cb_run :: "'r pyval list \<Rightarrow> 'u \<Rightarrow> (exn + 'r pyval) \<times> 'u"

section \<open>Requests, contexts and the application object\<close>

text \<open>A routing rule as \<open>add_url_rule\<close> builds it.\<close>

record rule =
  rule_string :: string
  rule_methods :: "method_item set"
  rule_endpoint :: string
  provide_automatic_options :: "bool option"

text \<open>
  The attributes of the request object that the application object reads. The routing
  outcome is captured when the context is built: either \<open>url_rule\<close> and \<open>view_args\<close>
  are set, or \<open>routing_exception\<close> is.
\<close>

record 'r request =
  req_method :: string
  req_path :: string
  req_environ :: "(string \<times> string) list"
  req_blueprint :: "string option"
  req_endpoint :: "string option"
  req_view_args :: "(string \<times> 'r pyval) list option"
  req_url_rule :: "rule option"
  req_routing_exception :: "exn option"

text \<open>
  The URL adapter of a request context: \<open>allowed_methods\<close> is absent on old routing
  libraries, where \<open>match(method='--')\<close> is tried instead; \<open>adapter_match\<close> is the
  exception that call raises, with its \<open>valid_methods\<close>.
\<close>

record url_adapter =
  allowed_methods :: "string list option"
  adapter_match :: "(exn \<times> string list) option"

record ('u, 'r) request_context =
  ctx_request :: "'r request"
  ctx_session :: "'r pyval"
  ctx_url_adapter :: url_adapter
  ctx_after_request_functions :: "('u, 'r) callback list"
  ctx_preserve :: bool
  ctx_owns_app_ctx :: bool

record 'r app_context =
  ctx_app :: string
  ctx_g :: "(string \<times> 'r pyval) list"
  ctx_refcnt :: nat

text \<open>
  The response class, the session interface and the rule class are collaborators of the
  application object; they are fields of the application so that every function below is
  stated for any implementation of them. \<open>rc_init body status headers\<close> is
  \<open>response_class(body, status=status, headers=headers)\<close>, \<open>rc_set_status\<close> and
  \<open>rc_set_status_code\<close> are the assignments to \<open>rv.status\<close> and \<open>rv.status_code\<close>,
  \<open>rc_headers_extend\<close> is \<open>rv.headers.extend\<close>, \<open>rc_wsgi_call\<close> is the call of the
  response as a WSGI application. \<open>save_session\<close> returns the response with the session
  written into it.
\<close>

record 'r response_class =
  rc_init :: "'r pyval \<Rightarrow> 'r pyval \<Rightarrow> 'r pyval \<Rightarrow> exn + 'r"
  rc_force_type :: "'r pyval \<Rightarrow> (string \<times> string) list \<Rightarrow> exn + 'r"
  rc_set_status :: "'r pyval \<Rightarrow> 'r \<Rightarrow> exn + 'r"
  rc_set_status_code :: "'r pyval \<Rightarrow> 'r \<Rightarrow> exn + 'r"
  rc_headers_extend :: "'r pyval \<Rightarrow> 'r \<Rightarrow> exn + 'r"
  rc_allow_update :: "string list \<Rightarrow> 'r \<Rightarrow> 'r"
  rc_wsgi_call :: "'r pyval \<Rightarrow> (string \<times> string) list \<Rightarrow> exn + string list"

record 'r session_interface =
  is_null_session :: "'r pyval \<Rightarrow> bool"
  save_session :: "'r pyval \<Rightarrow> 'r pyval \<Rightarrow> exn + 'r pyval"

text \<open>
  The application object. Dictionaries are association lists read with \<open>map_of\<close>; the
  key \<open>None\<close> of the per-blueprint dictionaries is the application itself. The URL map
  belongs to the routing library: \<open>url_map_add rule rules\<close> is \<open>self.url_map.add(rule)\<close>
  on a map that holds \<open>rules\<close>, with its outcome and the rules the map holds afterwards.
\<close>

record ('u, 'r) flask =
  import_name :: string
  debug :: bool
  testing :: bool
  PROPAGATE_EXCEPTIONS :: "bool option"
  TRAP_HTTP_EXCEPTIONS :: bool
  TRAP_BAD_REQUEST_ERRORS :: "bool option"
  view_functions :: "(string \<times> ('u, 'r) callback) list"
  error_handler_spec ::
    "(string option \<times> (int option \<times> (string \<times> ('u, 'r) callback) list) list) list"
  before_request_funcs :: "(string option \<times> ('u, 'r) callback list) list"
  before_first_request_funcs :: "('u, 'r) callback list"
  after_request_funcs :: "(string option \<times> ('u, 'r) callback list) list"
  teardown_request_funcs :: "(string option \<times> ('u, 'r) callback list) list"
  teardown_appcontext_funcs :: "('u, 'r) callback list"
  url_value_preprocessors :: "(string option \<times> ('u, 'r) callback list) list"
  url_map :: "rule list"
  url_map_add :: "rule \<Rightarrow> rule list \<Rightarrow> (exn + unit) \<times> rule list"
  got_first_request :: bool
  response_class :: "'r response_class"
  session_interface :: "'r session_interface"
  url_rule_class :: "string \<Rightarrow> method_item set \<Rightarrow> string \<Rightarrow> exn + rule"

text \<open>
  The world a request runs in: the application object, the state of the application's own
  code, the trace of what the framework did, and the two context stacks of this worker
  (the top of a stack is the last element of the list).
\<close>

record ('u, 'r) world =
  app :: "('u, 'r) flask"
  user :: 'u
  trace :: "'r event list"
  request_ctx_stack :: "('u, 'r) request_context list"
  app_ctx_stack :: "'r app_context list"


section \<open>Programs: state passing with exceptions\<close>

type_synonym ('w, 'a) prog = "'w \<Rightarrow> (exn + 'a) \<times> 'w"

definition return :: "'a \<Rightarrow> ('w, 'a) prog" where
  "return x = (\<lambda>w. (Inr x, w))"

definition raise :: "exn \<Rightarrow> ('w, 'a) prog" where
  "raise e = (\<lambda>w. (Inl e, w))"

definition bind :: "('w, 'a) prog \<Rightarrow> ('a \<Rightarrow> ('w, 'b) prog) \<Rightarrow> ('w, 'b) prog" where
  "bind m f = (\<lambda>w. case m w of (Inl e, w') \<Rightarrow> (Inl e, w') | (Inr x, w') \<Rightarrow> f x w')"

definition lift :: "exn + 'a \<Rightarrow> ('w, 'a) prog" where
  "lift r = (\<lambda>w. (r, w))"

text \<open>\<open>try: m except Exception as e: h e\<close>: only subclasses of \<open>Exception\<close> are caught.\<close>

definition try_except :: "('w, 'a) prog \<Rightarrow> (exn \<Rightarrow> ('w, 'a) prog) \<Rightarrow> ('w, 'a) prog" where
  "try_except m h =
     (\<lambda>w. case m w of
        (Inl e, w') \<Rightarrow> if isinstance_exn e ''Exception'' then h e w' else (Inl e, w')
      | (Inr x, w') \<Rightarrow> (Inr x, w'))"

text \<open>
  \<open>try: m finally: fin\<close>: the cleanup always runs; its own exception replaces the
  outcome of the body.
\<close>

definition try_finally :: "('w, 'a) prog \<Rightarrow> ('w, unit) prog \<Rightarrow> ('w, 'a) prog" where
  "try_finally m fin =
     (\<lambda>w. case m w of
        (r, w') \<Rightarrow> (case fin w' of (Inl e, w'') \<Rightarrow> (Inl e, w'') | (Inr u, w'') \<Rightarrow> (r, w'')))"

definition emit :: "'r event \<Rightarrow> (('u, 'r) world, unit) prog" where
  "emit ev = (\<lambda>w. (Inr (), w\<lparr>trace := trace w @ [ev]\<rparr>))"

text \<open>A call of user code: recorded in the trace, run on the user state.\<close>

definition call ::
  "role \<Rightarrow> ('u, 'r) callback \<Rightarrow> 'r pyval list \<Rightarrow> (('u, 'r) world, 'r pyval) prog" where
  "call rl f args =
     (\<lambda>w. case cb_run f args (user w) of
        (r, u') \<Rightarrow> (r, w\<lparr>user := u', trace := trace w @ [Called rl (cb_name f) args]\<rparr>))"


definition gets :: "('w \<Rightarrow> 'a) \<Rightarrow> ('w, 'a) prog" where
  "gets f = (\<lambda>w. (Inr (f w), w))"

definition modify :: "('w \<Rightarrow> 'w) \<Rightarrow> ('w, unit) prog" where
  "modify f = (\<lambda>w. (Inr (), f w))"

text \<open>The outcome of a program as a value: what a \<open>try\<close> statement sees of its body.\<close>

definition attempt :: "('w, 'a) prog \<Rightarrow> ('w, exn + 'a) prog" where
  "attempt m = (\<lambda>w. case m w of (r, w') \<Rightarrow> (Inr r, w'))"

section \<open>Context stacks and proxies\<close>

definition app_ctx_err_msg :: string where
  "app_ctx_err_msg =
     ''Working outside of application context.'' @ [CHR 0x0A, CHR 0x0A] @
     ''This typically means that you attempted to use functionality that needed'' @ [CHR 0x0A] @
     ''to interface with the current application object in some way. To solve'' @ [CHR 0x0A] @
     ''this, set up an application context with app.app_context().  See the'' @ [CHR 0x0A] @
     ''documentation for more information.''"

definition request_ctx_err_msg :: string where
  "request_ctx_err_msg =
     ''Working outside of request context.'' @ [CHR 0x0A, CHR 0x0A] @
     ''This typically means that you attempted to use functionality that needed'' @ [CHR 0x0A] @
     ''an active HTTP request.  Consult the documentation on testing for'' @ [CHR 0x0A] @
     ''information about how to avoid this problem.''"

text \<open>\<open>LocalStack.top\<close>: the last element pushed, or \<open>None\<close> on an empty stack.\<close>

definition top :: "'a list \<Rightarrow> 'a option" where
  "top stack = (if stack = [] then None else Some (last stack))"

text \<open>
  \<open>getattr(top, name)\<close> is the application of the field selector \<open>name\<close> to the context
  object.
\<close>

definition lookup_req_object ::
  "(('u, 'r) request_context \<Rightarrow> 'a) \<Rightarrow> (('u, 'r) world, 'a) prog" where
  "lookup_req_object name =
     (\<lambda>w. case top (request_ctx_stack w) of
        None \<Rightarrow> raise (RuntimeError request_ctx_err_msg) w
      | Some t \<Rightarrow> return (name t) w)"

definition find_app :: "(('u, 'r) world, string) prog" where
  "find_app =
     (\<lambda>w. case top (app_ctx_stack w) of
        None \<Rightarrow> raise (RuntimeError app_ctx_err_msg) w
      | Some t \<Rightarrow> return (ctx_app t) w)"

definition lookup_app_object :: "('r app_context \<Rightarrow> 'a) \<Rightarrow> (('u, 'r) world, 'a) prog" where
  "lookup_app_object name =
     (\<lambda>w. case top (app_ctx_stack w) of
        None \<Rightarrow> raise (RuntimeError app_ctx_err_msg) w
      | Some t \<Rightarrow> return (name t) w)"

definition current_app :: "(('u, 'r) world, string) prog" where
  "current_app = find_app"

definition request_proxy :: "(('u, 'r) world, 'r request) prog" where
  "request_proxy = lookup_req_object ctx_request"

definition session_proxy :: "(('u, 'r) world, 'r pyval) prog" where
  "session_proxy = lookup_req_object ctx_session"

definition g_proxy :: "(('u, 'r) world, (string \<times> 'r pyval) list) prog" where
  "g_proxy = lookup_app_object ctx_g"

section \<open>Response coercion\<close>

text \<open>\<open>isinstance(x, (text_type, bytes, bytearray))\<close>\<close>

definition is_text :: "'r pyval \<Rightarrow> bool" where
  "is_text v =
     (case v of PStr s \<Rightarrow> True | PBytes s \<Rightarrow> True | PByteArray s \<Rightarrow> True | _ \<Rightarrow> False)"

text \<open>\<open>isinstance(x, (Headers, dict, tuple, list))\<close>\<close>

definition header_like :: "'r pyval \<Rightarrow> bool" where
  "header_like v =
     (case v of PHeaders h \<Rightarrow> True | PDict d \<Rightarrow> True | PTuple t \<Rightarrow> True | PList l \<Rightarrow> True
      | _ \<Rightarrow> False)"

text \<open>Python's truth value of an object.\<close>

definition truthy :: "'r pyval \<Rightarrow> bool" where
  "truthy v =
     (case v of PNone \<Rightarrow> False | PStr s \<Rightarrow> s \<noteq> [] | PBytes s \<Rightarrow> s \<noteq> []
      | PByteArray s \<Rightarrow> s \<noteq> [] | PInt n \<Rightarrow> n \<noteq> 0 | PTuple t \<Rightarrow> t \<noteq> []
      | PList l \<Rightarrow> l \<noteq> [] | PDict d \<Rightarrow> d \<noteq> [] | PHeaders h \<Rightarrow> h \<noteq> []
      | _ \<Rightarrow> True)"

text \<open>\<open>rv.__class__.__name__\<close>\<close>

definition class_name :: "'r pyval \<Rightarrow> string" where
  "class_name v =
     (case v of PNone \<Rightarrow> ''NoneType'' | PStr s \<Rightarrow> ''str'' | PBytes s \<Rightarrow> ''bytes''
      | PByteArray s \<Rightarrow> ''bytearray'' | PInt n \<Rightarrow> ''int'' | PTuple t \<Rightarrow> ''tuple''
      | PList l \<Rightarrow> ''list'' | PDict d \<Rightarrow> ''dict'' | PHeaders h \<Rightarrow> ''Headers''
      | PResponse r \<Rightarrow> ''Response''
      | PExc e \<Rightarrow> (case exc_mro e of [] \<Rightarrow> ''object'' | c # cs \<Rightarrow> c)
      | PObject n \<Rightarrow> n)"

definition invalid_tuple_msg :: string where
  "invalid_tuple_msg =
     ''The view function did not return a valid response tuple.'' @
     '' The tuple must have the form (body, status, headers),'' @
     '' (body, status), or (body, headers).''"

definition none_body_msg :: string where
  "none_body_msg =
     ''The view function did not return a valid response. The'' @
     '' function either returned None or ended without a return'' @
     '' statement.''"

definition invalid_type_msg :: "exn \<Rightarrow> 'r pyval \<Rightarrow> string" where
  "invalid_type_msg e rv =
     exc_msg e @ [CHR 0x0A] @ ''The view function did not return a valid'' @
     '' response. The return type must be a string, tuple,'' @
     '' Response instance, or WSGI callable, but it was a '' @ class_name rv @ ''.''"

text \<open>
  \<open>Flask.make_response\<close>. The three stages follow the source: the tuple is unpacked into
  \<open>(rv, status, headers)\<close>; the body is made an instance of the response class; the status
  and the headers that are still pending are applied to it.
\<close>

definition make_response :: "'r pyval \<Rightarrow> (('u, 'r) world, 'r) prog" where
  "make_response rv0 =
     bind (case rv0 of
             PTuple xs \<Rightarrow>
               if length xs = 3 then return (xs ! 0, xs ! 1, xs ! 2)
               else if length xs = 2 then
                 (if header_like (xs ! 1) then return (xs ! 0, PNone, xs ! 1)
                  else return (xs ! 0, xs ! 1, PNone))
               else raise (TypeError invalid_tuple_msg)
           | _ \<Rightarrow> return (rv0, PNone, PNone))
       (\<lambda>(rv, status, headers).
     if rv = PNone then raise (TypeError none_body_msg)
     else
     bind (case rv of
             PResponse r \<Rightarrow> return (r, status, headers)
           | _ \<Rightarrow>
               if is_text rv then
                 bind (gets (\<lambda>w. rc_init (response_class (app w)) rv status headers))
                   (\<lambda>res. bind (lift res) (\<lambda>r. return (r, PNone, PNone)))
               else
                 bind request_proxy (\<lambda>req.
                 bind (gets (\<lambda>w. rc_force_type (response_class (app w)) rv (req_environ req)))
                   (\<lambda>res. case res of
                      Inl e \<Rightarrow>
                        if isinstance_exn e ''TypeError''
                        then raise (TypeError (invalid_type_msg e rv))
                        else raise e
                    | Inr r \<Rightarrow> return (r, status, headers))))
       (\<lambda>(r, status, headers).
     bind (if status \<noteq> PNone then
             bind (gets (\<lambda>w. if is_text status
                              then rc_set_status (response_class (app w)) status r
                              else rc_set_status_code (response_class (app w)) status r))
               lift
           else return r)
       (\<lambda>r.
     if truthy headers then
       bind (gets (\<lambda>w. rc_headers_extend (response_class (app w)) headers r)) lift
     else return r)))"

section \<open>Error handler lookup\<close>

text \<open>
  \<open>Flask._get_exc_class_and_code\<close> on the class of an exception (the branch for an integer
  code serves registration only): the class must derive from \<open>Exception\<close>; the code is
  the class attribute \<open>code\<close> of an HTTP exception and \<open>None\<close> for any other class. A
  class is given by its \<open>__mro__\<close>.
\<close>

definition get_exc_class_and_code :: "exn \<Rightarrow> exn + (string list \<times> int option)" where
  "get_exc_class_and_code e =
     (if \<not> isinstance_exn e ''Exception'' then Inl (AssertionError [])
      else if isinstance_exn e ''HTTPException'' then Inr (exc_mro e, exc_code e)
      else Inr (exc_mro e, None))"

text \<open>\<open>dict.setdefault(k, v)\<close> on an association list.\<close>

definition setdefault :: "'k \<Rightarrow> 'v \<Rightarrow> ('k \<times> 'v) list \<Rightarrow> ('k \<times> 'v) list" where
  "setdefault k v d = (case map_of d k of None \<Rightarrow> d @ [(k, v)] | Some x \<Rightarrow> d)"

text \<open>The inner loop of \<open>_find_error_handler\<close>: \<open>for cls in exc_class.__mro__\<close>.\<close>

fun mro_lookup :: "(string \<times> 'h) list \<Rightarrow> string list \<Rightarrow> 'h option" where
  "mro_lookup handler_map [] = None"
| "mro_lookup handler_map (cls # rest) =
     (case map_of handler_map cls of
        Some handler \<Rightarrow> Some handler
      | None \<Rightarrow> mro_lookup handler_map rest)"

text \<open>
  The outer loop, over the pairs \<open>(name, c)\<close>; it returns the handler found, if any, and
  the registry, to which \<open>setdefault\<close> has added an empty dictionary for every name
  looked at.
\<close>

fun find_error_handler_loop ::
  "(string option \<times> int option) list \<Rightarrow> string list \<Rightarrow>
   (string option \<times> (int option \<times> (string \<times> 'h) list) list) list \<Rightarrow>
   'h option \<times> (string option \<times> (int option \<times> (string \<times> 'h) list) list) list" where
  "find_error_handler_loop [] mro spec = (None, spec)"
| "find_error_handler_loop ((name, c) # rest) mro spec =
     (let spec' = setdefault name [] spec;
          handler_map = (case map_of spec' name of None \<Rightarrow> None | Some d \<Rightarrow> map_of d c)
      in case handler_map of
           None \<Rightarrow> find_error_handler_loop rest mro spec'
         | Some hm \<Rightarrow>
             if hm = [] then find_error_handler_loop rest mro spec'
             else (case mro_lookup hm mro of
                     Some handler \<Rightarrow> (Some handler, spec')
                   | None \<Rightarrow> find_error_handler_loop rest mro spec'))"

definition find_error_handler ::
  "exn \<Rightarrow> (('u, 'r) world, ('u, 'r) callback option) prog" where
  "find_error_handler e =
     bind (lift (get_exc_class_and_code e)) (\<lambda>(exc_class, code).
     bind request_proxy (\<lambda>req.
     (\<lambda>w. case find_error_handler_loop
               [(req_blueprint req, code), (None, code), (req_blueprint req, None), (None, None)]
               exc_class (error_handler_spec (app w)) of
             (handler, spec') \<Rightarrow>
               (Inr handler, w\<lparr>app := (app w)\<lparr>error_handler_spec := spec'\<rparr>\<rparr>))))"

text \<open>
  The lookup in the words of the spec. The registry maps a scope and a status code (or
  none) to the handlers by exception type; \<open>bucket\<close> is one such entry, empty when
  nothing is registered. Within a bucket the type hierarchy is searched from the most
  specific class on, and the buckets are tried in the order blueprint and code,
  application and code, blueprint without code, application without code.
\<close>

definition bucket ::
  "(string option \<times> (int option \<times> (string \<times> 'h) list) list) list \<Rightarrow>
   string option \<Rightarrow> int option \<Rightarrow> (string \<times> 'h) list" where
  "bucket spec name c =
     (case map_of spec name of
        None \<Rightarrow> []
      | Some d \<Rightarrow> (case map_of d c of None \<Rightarrow> [] | Some hm \<Rightarrow> hm))"

definition search_bucket :: "(string \<times> 'h) list \<Rightarrow> string list \<Rightarrow> 'h option" where
  "search_bucket hm mro =
     (case List.find (\<lambda>cls. map_of hm cls \<noteq> None) mro of
        None \<Rightarrow> None
      | Some cls \<Rightarrow> map_of hm cls)"

definition first_handler :: "'h option list \<Rightarrow> 'h option" where
  "first_handler hs = (case List.find (\<lambda>h. h \<noteq> None) hs of None \<Rightarrow> None | Some h \<Rightarrow> h)"

definition status_code_of :: "exn \<Rightarrow> int option" where
  "status_code_of e = (if isinstance_exn e ''HTTPException'' then exc_code e else None)"

definition spec_find_error_handler ::
  "(string option \<times> (int option \<times> (string \<times> 'h) list) list) list \<Rightarrow>
   string option \<Rightarrow> exn \<Rightarrow> 'h option" where
  "spec_find_error_handler spec bp e =
     first_handler
       [search_bucket (bucket spec bp (status_code_of e)) (exc_mro e),
        search_bucket (bucket spec None (status_code_of e)) (exc_mro e),
        search_bucket (bucket spec bp None) (exc_mro e),
        search_bucket (bucket spec None None) (exc_mro e)]"

section \<open>Registration of URL rules\<close>

text \<open>
  \<open>str.upper\<close> on the letters of ASCII, which is what method names are made of.
\<close>

definition upper_char :: "char \<Rightarrow> char" where
  "upper_char c =
     (let n = (of_char c :: nat) in if 97 \<le> n \<and> n \<le> 122 then char_of (n - 32) else c)"

definition upper :: "string \<Rightarrow> string" where
  "upper s = map upper_char s"

definition setup_msg :: string where
  "setup_msg =
     ''A setup function was called after the '' @
     ''first request was handled.  This usually indicates a bug '' @
     ''in the application where a module was not imported '' @
     ''and decorators or other functionality was called too late.'' @ [CHR 0x0A] @
     ''To fix this make sure to import all your view modules, '' @
     ''database models and everything related at a central place '' @
     ''before the application starts serving requests.''"

definition methods_msg :: string where
  "methods_msg =
     ''Allowed methods have to be iterables of strings, '' @
     ''for example: @app.route(..., methods=['' @ [CHR 0x22] @ ''POST'' @ [CHR 0x22] @ ''])''"

definition overwrite_msg :: "string \<Rightarrow> string" where
  "overwrite_msg endpoint =
     ''View function mapping is overwriting an '' @
     ''existing endpoint function: '' @ endpoint"

text \<open>The decorator \<open>setupmethod\<close>: the check that runs before the wrapped method.\<close>

definition setupmethod :: "(('u, 'r) world, 'a) prog \<Rightarrow> (('u, 'r) world, 'a) prog" where
  "setupmethod f =
     (\<lambda>w. if debug (app w) \<and> got_first_request (app w)
          then raise (AssertionError setup_msg) w
          else f w)"

definition not_iterable_msg :: "string \<Rightarrow> string" where
  "not_iterable_msg cls = [CHR 0x27] @ cls @ [CHR 0x27] @ '' object is not iterable''"

definition no_upper_msg :: "string \<Rightarrow> string" where
  "no_upper_msg cls =
     [CHR 0x27] @ cls @ [CHR 0x27] @ '' object has no attribute '' @
     [CHR 0x27] @ ''upper'' @ [CHR 0x27]"

text \<open>Python's truth value of such an object.\<close>

definition methods_truthy :: "methods_arg \<Rightarrow> bool" where
  "methods_truthy m =
     (case m of Methods_str s \<Rightarrow> s \<noteq> [] | Methods_iter items \<Rightarrow> items \<noteq> []
      | Methods_other cls t \<Rightarrow> t)"

text \<open>
  The methods of the rule before normalisation: \<open>options.pop('methods', None)\<close>, and
  when that is \<open>None\<close>, \<open>getattr(view_func, 'methods', None) or ('GET',)\<close>.
\<close>

definition resolve_methods ::
  "('u, 'r) callback option \<Rightarrow> methods_arg option \<Rightarrow> methods_arg" where
  "resolve_methods view_func methods_opt =
     (case methods_opt of
        None \<Rightarrow>
          (case (case view_func of None \<Rightarrow> None | Some f \<Rightarrow> cb_methods f) of
             None \<Rightarrow> Methods_iter [Item_str ''GET'']
           | Some ms \<Rightarrow> if methods_truthy ms then ms else Methods_iter [Item_str ''GET''])
      | Some m \<Rightarrow> m)"

text \<open>
  \<open>item.upper() for item in methods\<close>, consumed by \<open>set\<close>: the first item without a
  method \<open>upper\<close> ends it with an \<open>AttributeError\<close>.
\<close>

fun upper_items :: "method_item list \<Rightarrow> exn + method_item list" where
  "upper_items [] = Inr []"
| "upper_items (Item_str s # rest) =
     (case upper_items rest of
        Inl e \<Rightarrow> Inl e
      | Inr us \<Rightarrow> Inr (Item_str (upper s) # us))"
| "upper_items (Item_other cls # rest) = Inl (AttributeError (no_upper_msg cls))"

text \<open>
  The check of the methods and their normalisation: a single string is refused, an object
  that is not iterable cannot be looped over, and the items are put in upper case.
\<close>

definition normalize_methods :: "methods_arg \<Rightarrow> exn + method_item set" where
  "normalize_methods m =
     (case m of
        Methods_str s \<Rightarrow> Inl (TypeError methods_msg)
      | Methods_other cls t \<Rightarrow> Inl (TypeError (not_iterable_msg cls))
      | Methods_iter items \<Rightarrow>
          (case upper_items items of Inl e \<Rightarrow> Inl e | Inr us \<Rightarrow> Inr (set us)))"

text \<open>
  \<open>set(getattr(view_func, 'required_methods', ()))\<close>: the set of a string is the set of
  its characters.
\<close>

definition required_methods_of :: "('u, 'r) callback option \<Rightarrow> exn + method_item set" where
  "required_methods_of view_func =
     (case view_func of
        None \<Rightarrow> Inr {}
      | Some f \<Rightarrow>
          (case cb_required_methods f of
             Methods_str s \<Rightarrow> Inr ((\<lambda>c. Item_str [c]) ` set s)
           | Methods_iter items \<Rightarrow> Inr (set items)
           | Methods_other cls t \<Rightarrow> Inl (TypeError (not_iterable_msg cls))))"

text \<open>
  The method set of the rule and its \<open>provide_automatic_options\<close> flag: \<open>OPTIONS\<close> is
  required when automatic options are neither asked for nor refused and the methods do not
  have it, and the required methods are added to the methods.
\<close>

definition rule_methods_and_options ::
  "('u, 'r) callback option \<Rightarrow> bool option \<Rightarrow> method_item set \<Rightarrow> method_item set \<Rightarrow>
   method_item set \<times> bool" where
  "rule_methods_and_options view_func pao0 methods required_methods =
     (let pao1 = (case pao0 of
                    None \<Rightarrow> (case view_func of
                               None \<Rightarrow> None
                             | Some f \<Rightarrow> cb_provide_automatic_options f)
                  | Some b \<Rightarrow> Some b);
          pao = (case pao1 of None \<Rightarrow> Item_str ''OPTIONS'' \<notin> methods | Some b \<Rightarrow> b);
          required_methods' =
            (if pao1 = None \<and> Item_str ''OPTIONS'' \<notin> methods
             then insert (Item_str ''OPTIONS'') required_methods else required_methods)
      in (methods \<union> required_methods', pao))"

text \<open>\<open>self.url_map.add(rule)\<close>\<close>

definition url_map_add_rule :: "rule \<Rightarrow> (('u, 'r) world, unit) prog" where
  "url_map_add_rule r =
     (\<lambda>w. case url_map_add (app w) r (url_map (app w)) of
            (res, rules) \<Rightarrow> (res, w\<lparr>app := (app w)\<lparr>url_map := rules\<rparr>\<rparr>))"

text \<open>
  \<open>Flask.add_url_rule\<close>. The helper \<open>_endpoint_from_view_func\<close> (module \<open>__helpers\<close>)
  is a parameter; \<open>methods_opt\<close> is \<open>options.pop('methods', None)\<close>. View functions are
  function objects, which \<open>!=\<close> compares by identity.
\<close>

definition add_url_rule ::
  "(('u, 'r) callback option \<Rightarrow> exn + string) \<Rightarrow> string \<Rightarrow> string option \<Rightarrow>
   ('u, 'r) callback option \<Rightarrow> bool option \<Rightarrow> methods_arg option \<Rightarrow>
   (('u, 'r) world, unit) prog" where
  "add_url_rule endpoint_from_view_func rule endpoint0 view_func pao0 methods_opt =
     setupmethod
      (bind (case endpoint0 of
               None \<Rightarrow> lift (endpoint_from_view_func view_func)
             | Some ep \<Rightarrow> return ep) (\<lambda>endpoint.
       bind (lift (normalize_methods (resolve_methods view_func methods_opt))) (\<lambda>ms.
       bind (lift (required_methods_of view_func)) (\<lambda>required_methods.
       case rule_methods_and_options view_func pao0 ms required_methods of (methods, pao) \<Rightarrow>
       bind (gets (\<lambda>w. url_rule_class (app w) rule methods endpoint)) (\<lambda>res.
       bind (lift res) (\<lambda>r.
       bind (url_map_add_rule (r\<lparr>provide_automatic_options := Some pao\<rparr>)) (\<lambda>u.
       case view_func of
         None \<Rightarrow> return ()
       | Some f \<Rightarrow>
           bind (gets (\<lambda>w. map_of (view_functions (app w)) endpoint)) (\<lambda>old_func.
           if (case old_func of None \<Rightarrow> False | Some old \<Rightarrow> cb_id old \<noteq> cb_id f)
           then raise (AssertionError (overwrite_msg endpoint))
           else modify (\<lambda>w. w\<lparr>app := (app w)\<lparr>view_functions :=
                  AList.update endpoint f (view_functions (app w))\<rparr>\<rparr>)))))))))"

section \<open>The dispatch pipeline\<close>

text \<open>
  Signals are recorded in the trace; no receiver is connected. A lock taken by
  \<open>with\<close> in the one worker that runs a request is free and is released at the end of
  the block, so it does not show in the sequential functions.
\<close>

definition IndexError :: "string \<Rightarrow> exn" where
  "IndexError msg =
     Exn [''IndexError'', ''LookupError'', ''Exception'', ''BaseException'', ''object''] None
       msg [msg]"

text \<open>The exception, or \<open>None\<close>, as the argument of a teardown function.\<close>

definition exc_arg :: "exn option \<Rightarrow> 'r pyval" where
  "exc_arg exc = (case exc of None \<Rightarrow> PNone | Some e \<Rightarrow> PExc e)"

text \<open>
  \<open>_request_ctx_stack.top\<close> when an attribute of it is read next: on an empty stack the
  value is \<open>None\<close> and the attribute access raises.
\<close>

definition request_ctx_top :: "(('u, 'r) world, ('u, 'r) request_context) prog" where
  "request_ctx_top =
     bind (gets (\<lambda>w. top (request_ctx_stack w))) (\<lambda>t.
     case t of
       None \<Rightarrow> raise (AttributeError ''NoneType object has no attribute'')
     | Some c \<Rightarrow> return c)"

text \<open>\<open>d.get(key, ())\<close>, and \<open>d[bp]\<close> under \<open>bp is not None and bp in d\<close>.\<close>

definition get_funcs :: "(string option \<times> 'a list) list \<Rightarrow> string option \<Rightarrow> 'a list" where
  "get_funcs d key = (case map_of d key of None \<Rightarrow> [] | Some fs \<Rightarrow> fs)"

definition blueprint_funcs :: "(string option \<times> 'a list) list \<Rightarrow> string option \<Rightarrow> 'a list" where
  "blueprint_funcs d bp = (case bp of None \<Rightarrow> [] | Some b \<Rightarrow> get_funcs d (Some b))"

text \<open>\<open>for func in funcs: func(*args)\<close>\<close>

fun call_each ::
  "role \<Rightarrow> ('u, 'r) callback list \<Rightarrow> 'r pyval list \<Rightarrow> (('u, 'r) world, unit) prog" where
  "call_each rl [] args = return ()"
| "call_each rl (func # funcs) args = bind (call rl func args) (\<lambda>rv. call_each rl funcs args)"

definition try_trigger_before_first_request_functions :: "(('u, 'r) world, unit) prog" where
  "try_trigger_before_first_request_functions =
     bind (gets (\<lambda>w. got_first_request (app w))) (\<lambda>got.
     if got then return ()
     else
       bind (gets (\<lambda>w. got_first_request (app w))) (\<lambda>got.
       if got then return ()
       else
         bind (gets (\<lambda>w. before_first_request_funcs (app w))) (\<lambda>funcs.
         bind (call_each BeforeFirstRequest funcs []) (\<lambda>u.
         modify (\<lambda>w. w\<lparr>app := (app w)\<lparr>got_first_request := True\<rparr>\<rparr>)))))"

text \<open>The loop over the before-request functions: the first value that is not \<open>None\<close>.\<close>

fun before_request_loop ::
  "('u, 'r) callback list \<Rightarrow> (('u, 'r) world, 'r pyval) prog" where
  "before_request_loop [] = return PNone"
| "before_request_loop (func # funcs) =
     bind (call BeforeRequest func []) (\<lambda>rv.
     if rv \<noteq> PNone then return rv else before_request_loop funcs)"

definition preprocess_request :: "(('u, 'r) world, 'r pyval) prog" where
  "preprocess_request =
     bind request_ctx_top (\<lambda>ctx.
     bind (gets (\<lambda>w. get_funcs (url_value_preprocessors (app w)) None @
                      blueprint_funcs (url_value_preprocessors (app w))
                        (req_blueprint (ctx_request ctx)))) (\<lambda>funcs.
     bind (call_each UrlValuePreprocessor funcs
             [case req_endpoint (ctx_request ctx) of None \<Rightarrow> PNone | Some ep \<Rightarrow> PStr ep,
              case req_view_args (ctx_request ctx) of None \<Rightarrow> PNone | Some va \<Rightarrow> PDict va])
       (\<lambda>u.
     bind (gets (\<lambda>w. get_funcs (before_request_funcs (app w)) None @
                      blueprint_funcs (before_request_funcs (app w))
                        (req_blueprint (ctx_request ctx)))) (\<lambda>funcs.
     before_request_loop funcs))))"

text \<open>
  Modelled from the spec: the class \<open>FormDataRoutingRedirect\<close> (module
  \<open>__debughelpers\<close>) is not among the sources. The spec has it as a diagnostic distinct
  from the redirect, saying that form data would be lost on the redirect.
\<close>

definition FormDataRoutingRedirect :: "'r request \<Rightarrow> exn" where
  "FormDataRoutingRedirect req =
     Exn [''FormDataRoutingRedirect'', ''AssertionError'', ''Exception'', ''BaseException'',
          ''object''] None
       (''form data would be lost on redirect: '' @ req_path req) [req_path req]"

text \<open>
  Inside a class body Python rewrites every identifier that starts with two underscores
  and does not end with two: the name of the class, without its leading underscores, is
  put in front of it after one underscore. The name of a module in an \<open>import\<close>
  statement is such an identifier, unless it has a dot.
\<close>

definition mangle :: "string \<Rightarrow> string \<Rightarrow> string" where
  "mangle cls name =
     (if take 2 name = ''__''
         \<and> drop (length name - 2) name \<noteq> ''__''
         \<and> CHR ''.'' \<notin> set name
         \<and> dropWhile (\<lambda>c. c = CHR ''_'') cls \<noteq> []
      then ''_'' @ dropWhile (\<lambda>c. c = CHR ''_'') cls @ name
      else name)"

text \<open>
  The modules that exist where the application object runs: those \<open>__flask.py\<close> imports
  at module level, and \<open>__debughelpers\<close>, which two of its methods import.
\<close>

definition modules :: "string list" where
  "modules =
     [''os'', ''sys'', ''datetime'', ''functools'', ''itertools'', ''threading'',
      ''werkzeug.datastructures'', ''werkzeug.exceptions'', ''werkzeug.routing'',
      ''__cli'', ''__json'', ''__compat'', ''__config'', ''__ctx'', ''__globals'',
      ''__helpers'', ''__logging'', ''__sessions'', ''__signals'', ''__templating'',
      ''__wrappers'', ''__debughelpers'']"

text \<open>
  \<open>from name import ...\<close> written in a method of the class \<open>cls\<close>: the module that
  is looked for is the one of the rewritten name.
\<close>

definition import_from :: "string \<Rightarrow> string \<Rightarrow> ('w, unit) prog" where
  "import_from cls name =
     (if mangle cls name \<in> set modules then return ()
      else raise (ModuleNotFoundError (mangle cls name)))"

definition raise_routing_exception :: "'r request \<Rightarrow> (('u, 'r) world, 'a) prog" where
  "raise_routing_exception req =
     bind (gets (\<lambda>w. debug (app w))) (\<lambda>dbg.
     if \<not> dbg
        \<or> \<not> (case req_routing_exception req of
                None \<Rightarrow> False
              | Some e \<Rightarrow> isinstance_exn e ''RequestRedirect'')
        \<or> req_method req \<in> {''GET'', ''HEAD'', ''OPTIONS''}
     then (case req_routing_exception req of
             None \<Rightarrow> raise (TypeError ''exceptions must derive from BaseException'')
           | Some e \<Rightarrow> raise e)
     else
       bind (import_from ''Flask'' ''__debughelpers'') (\<lambda>u.
       raise (FormDataRoutingRedirect req)))"

definition make_default_options_response :: "(('u, 'r) world, 'r pyval) prog" where
  "make_default_options_response =
     bind request_ctx_top (\<lambda>ctx.
     bind (case allowed_methods (ctx_url_adapter ctx) of
             Some ms \<Rightarrow> return ms
           | None \<Rightarrow>
               (case adapter_match (ctx_url_adapter ctx) of
                  None \<Rightarrow> return []
                | Some (e, valid_methods) \<Rightarrow>
                    if isinstance_exn e ''MethodNotAllowed'' then return valid_methods
                    else if isinstance_exn e ''HTTPException'' then return []
                    else raise e)) (\<lambda>methods.
     bind (gets (\<lambda>w. rc_init (response_class (app w)) PNone PNone PNone)) (\<lambda>res.
     bind (lift res) (\<lambda>rv.
     bind (gets (\<lambda>w. rc_allow_update (response_class (app w)) methods rv)) (\<lambda>rv'.
     return (PResponse rv'))))))"

definition dispatch_request :: "(('u, 'r) world, 'r pyval) prog" where
  "dispatch_request =
     bind request_ctx_top (\<lambda>ctx.
     bind (case req_routing_exception (ctx_request ctx) of
             None \<Rightarrow> return ()
           | Some e \<Rightarrow> raise_routing_exception (ctx_request ctx)) (\<lambda>u.
     case req_url_rule (ctx_request ctx) of
       None \<Rightarrow> raise (AttributeError ''NoneType object has no attribute endpoint'')
     | Some rule \<Rightarrow>
         if provide_automatic_options rule = Some True
            \<and> req_method (ctx_request ctx) = ''OPTIONS''
         then make_default_options_response
         else
           bind (gets (\<lambda>w. map_of (view_functions (app w)) (rule_endpoint rule))) (\<lambda>vf.
           case vf of
             None \<Rightarrow> raise (KeyError (rule_endpoint rule))
           | Some f \<Rightarrow>
               (case req_view_args (ctx_request ctx) of
                  None \<Rightarrow> raise (TypeError ''argument after ** must be a mapping'')
                | Some view_args \<Rightarrow> call ViewFunction f [PDict view_args]))))"

text \<open>The loop of \<open>process_response\<close>: \<open>response = handler(response)\<close>.\<close>

fun after_request_loop ::
  "('u, 'r) callback list \<Rightarrow> 'r pyval \<Rightarrow> (('u, 'r) world, 'r pyval) prog" where
  "after_request_loop [] response = return response"
| "after_request_loop (handler # funcs) response =
     bind (call AfterRequest handler [response]) (\<lambda>response'.
     after_request_loop funcs response')"

definition process_response :: "'r pyval \<Rightarrow> (('u, 'r) world, 'r pyval) prog" where
  "process_response response =
     bind request_ctx_top (\<lambda>ctx.
     bind (gets (\<lambda>w. ctx_after_request_functions ctx @
                      rev (blueprint_funcs (after_request_funcs (app w))
                             (req_blueprint (ctx_request ctx))) @
                      rev (get_funcs (after_request_funcs (app w)) None))) (\<lambda>funcs.
     bind (after_request_loop funcs response) (\<lambda>response'.
     bind (gets (\<lambda>w. session_interface (app w))) (\<lambda>si.
     if \<not> is_null_session si (ctx_session ctx)
     then lift (save_session si (ctx_session ctx) response')
     else return response'))))"

definition log_exception :: "(('u, 'r) world, unit) prog" where
  "log_exception =
     bind request_proxy (\<lambda>req.
     emit (Logged (''Exception on '' @ req_path req @ '' ['' @ req_method req @ '']'')))"

definition finalizing_failed_msg :: string where
  "finalizing_failed_msg =
     ''Request finalizing failed with an '' @ ''error while handling an error''"

definition finalize_request :: "'r pyval \<Rightarrow> bool \<Rightarrow> (('u, 'r) world, 'r pyval) prog" where
  "finalize_request rv from_error_handler =
     bind (make_response rv) (\<lambda>response.
     try_except
       (bind (process_response (PResponse response)) (\<lambda>response'.
        bind (emit (Signal ''request-finished'' [response'])) (\<lambda>u.
        return response')))
       (\<lambda>e. if \<not> from_error_handler then raise e
            else bind (emit (Logged finalizing_failed_msg)) (\<lambda>u.
                 return (PResponse response))))"

section \<open>Error handling\<close>

definition handle_http_exception :: "exn \<Rightarrow> (('u, 'r) world, 'r pyval) prog" where
  "handle_http_exception e =
     (if exc_code e = None then return (PExc e)
      else
        bind (find_error_handler e) (\<lambda>handler.
        case handler of
          None \<Rightarrow> return (PExc e)
        | Some h \<Rightarrow> call ErrorHandler h [PExc e]))"

definition trap_http_exception :: "exn \<Rightarrow> (('u, 'r) world, bool) prog" where
  "trap_http_exception e =
     bind (gets app) (\<lambda>self.
     if TRAP_HTTP_EXCEPTIONS self then return True
     else if TRAP_BAD_REQUEST_ERRORS self = None \<and> debug self
             \<and> isinstance_exn e ''BadRequestKeyError''
     then return True
     else if TRAP_BAD_REQUEST_ERRORS self = Some True
     then return (isinstance_exn e ''BadRequest'')
     else return False)"

text \<open>The default \<open>description\<close> of the routing library's \<open>BadRequestKeyError\<close>.\<close>

definition BadRequestKeyError_description :: string where
  "BadRequestKeyError_description =
     ''The browser (or proxy) sent a request that this server could not understand.''"

definition handle_user_exception :: "exn \<Rightarrow> (('u, 'r) world, 'r pyval) prog" where
  "handle_user_exception e0 =
     bind (gets app) (\<lambda>self.
     bind (if (debug self \<or> TRAP_BAD_REQUEST_ERRORS self = Some True)
              \<and> isinstance_exn e0 ''BadRequestKeyError''
              \<and> exc_msg e0 = BadRequestKeyError_description
           then (case exc_args e0 of
                   [] \<Rightarrow> raise (IndexError ''tuple index out of range'')
                 | a # as \<Rightarrow>
                     return (Exn (exc_mro e0) (exc_code e0)
                               (''KeyError: '' @ [CHR 0x27] @ a @ [CHR 0x27]) (exc_args e0)))
           else return e0) (\<lambda>e.
     bind (if isinstance_exn e ''HTTPException'' then trap_http_exception e
           else return True) (\<lambda>trapped.
     if isinstance_exn e ''HTTPException'' \<and> \<not> trapped then handle_http_exception e
     else
       bind (find_error_handler e) (\<lambda>handler.
       case handler of
         None \<Rightarrow> raise e
       | Some h \<Rightarrow> call ErrorHandler h [PExc e]))))"

definition propagate_exceptions :: "('u, 'r) flask \<Rightarrow> bool" where
  "propagate_exceptions self =
     (case PROPAGATE_EXCEPTIONS self of
        Some rv \<Rightarrow> rv
      | None \<Rightarrow> testing self \<or> debug self)"

definition handle_exception :: "exn \<Rightarrow> (('u, 'r) world, 'r pyval) prog" where
  "handle_exception e =
     bind (emit (Signal ''got-request-exception'' [PExc e])) (\<lambda>u.
     bind (find_error_handler InternalServerError) (\<lambda>handler.
     bind (gets (\<lambda>w. propagate_exceptions (app w))) (\<lambda>propagate.
     if propagate then raise e
     else
       bind log_exception (\<lambda>u.
       case handler of
         None \<Rightarrow> return (PExc InternalServerError)
       | Some h \<Rightarrow>
           bind (call ErrorHandler h [PExc e]) (\<lambda>rv.
           finalize_request rv True)))))"

definition full_dispatch_request :: "(('u, 'r) world, 'r pyval) prog" where
  "full_dispatch_request =
     bind try_trigger_before_first_request_functions (\<lambda>u.
     bind (try_except
             (bind (emit (Signal ''request-started'' [])) (\<lambda>u.
              bind preprocess_request (\<lambda>rv.
              if rv = PNone then dispatch_request else return rv)))
             (\<lambda>e. handle_user_exception e)) (\<lambda>rv.
     finalize_request rv False))"

definition should_ignore_error :: "exn option \<Rightarrow> bool" where
  "should_ignore_error error = False"

section \<open>Teardown, contexts and the WSGI entry point\<close>

text \<open>
  The two teardown functions, called with the exception given by the caller (the default
  argument, the exception being handled, is not used by the callers below).
\<close>

definition do_teardown_appcontext :: "exn option \<Rightarrow> (('u, 'r) world, unit) prog" where
  "do_teardown_appcontext exc =
     bind (gets (\<lambda>w. rev (teardown_appcontext_funcs (app w)))) (\<lambda>funcs.
     bind (call_each TeardownAppcontext funcs [exc_arg exc]) (\<lambda>u.
     emit (Signal ''appcontext-tearing-down'' [exc_arg exc])))"

definition do_teardown_request :: "exn option \<Rightarrow> (('u, 'r) world, unit) prog" where
  "do_teardown_request exc =
     bind request_ctx_top (\<lambda>ctx.
     bind (gets (\<lambda>w. rev (get_funcs (teardown_request_funcs (app w)) None) @
                      rev (blueprint_funcs (teardown_request_funcs (app w))
                             (req_blueprint (ctx_request ctx))))) (\<lambda>funcs.
     bind (call_each TeardownRequest funcs [exc_arg exc]) (\<lambda>u.
     emit (Signal ''request-tearing-down'' [exc_arg exc]))))"

text \<open>
  Modelled from the spec: the module \<open>__ctx\<close> with the classes \<open>AppContext\<close> and
  \<open>RequestContext\<close> is not among the sources. From the spec, section 4.2: a push of an
  application context increments the reference count of the top of the application stack
  when that already wraps the same application, and pushes a new context otherwise; a pop
  decrements the count and, only when it reaches zero, runs the application-level teardown
  callbacks with the exception and removes the context; popping when the application's
  context is not on top is a fatal usage error.
\<close>

definition app_ctx_is_current :: "('u, 'r) world \<Rightarrow> bool" where
  "app_ctx_is_current w =
     (case top (app_ctx_stack w) of
        None \<Rightarrow> False
      | Some t \<Rightarrow> ctx_app t = import_name (app w))"

definition app_context_push :: "(('u, 'r) world, unit) prog" where
  "app_context_push =
     bind (gets app_ctx_is_current) (\<lambda>current.
     if current
     then modify (\<lambda>w. w\<lparr>app_ctx_stack := butlast (app_ctx_stack w) @
            [(last (app_ctx_stack w))\<lparr>ctx_refcnt := ctx_refcnt (last (app_ctx_stack w)) + 1\<rparr>]\<rparr>)
     else modify (\<lambda>w. w\<lparr>app_ctx_stack := app_ctx_stack w @
            [\<lparr>ctx_app = import_name (app w), ctx_g = [], ctx_refcnt = 1\<rparr>]\<rparr>))"

definition app_context_pop :: "exn option \<Rightarrow> (('u, 'r) world, unit) prog" where
  "app_context_pop exc =
     bind (gets app_ctx_is_current) (\<lambda>current.
     if \<not> current then raise (AssertionError ''Popped wrong app context.'')
     else
       bind (gets (\<lambda>w. ctx_refcnt (last (app_ctx_stack w)))) (\<lambda>n.
       if n - 1 = 0 then
         bind (do_teardown_appcontext exc) (\<lambda>u.
         modify (\<lambda>w. w\<lparr>app_ctx_stack := butlast (app_ctx_stack w)\<rparr>))
       else
         modify (\<lambda>w. w\<lparr>app_ctx_stack := butlast (app_ctx_stack w) @
           [(last (app_ctx_stack w))\<lparr>ctx_refcnt := n - 1\<rparr>]\<rparr>)))"

text \<open>
  Modelled from the spec, section 4.3: a push of a request context pushes an application
  context when none for this application is current, remembers that it owns it, and then
  pushes itself; a pop runs the request-level teardown callbacks, removes the request
  context (a fatal error when it is not the top) and, if it owns an application context,
  pops that too with the same exception; \<open>auto_pop\<close> postpones the pop when the context
  is to outlive the call (\<open>ctx_preserve\<close>) and pops otherwise. The push returns the
  context as it stands on the stack.
\<close>

definition request_context_push ::
  "('u, 'r) request_context \<Rightarrow> (('u, 'r) world, ('u, 'r) request_context) prog" where
  "request_context_push ctx =
     bind (gets app_ctx_is_current) (\<lambda>current.
     bind (if current then return () else app_context_push) (\<lambda>u.
     bind (modify (\<lambda>w. w\<lparr>request_ctx_stack := request_ctx_stack w @
             [ctx\<lparr>ctx_owns_app_ctx := \<not> current\<rparr>]\<rparr>)) (\<lambda>u.
     return (ctx\<lparr>ctx_owns_app_ctx := \<not> current\<rparr>))))"

definition request_context_pop ::
  "('u, 'r) request_context \<Rightarrow> exn option \<Rightarrow> (('u, 'r) world, unit) prog" where
  "request_context_pop ctx exc =
     bind (do_teardown_request exc) (\<lambda>u.
     bind (gets (\<lambda>w. top (request_ctx_stack w))) (\<lambda>t.
     if t \<noteq> Some ctx then raise (AssertionError ''Popped wrong request context.'')
     else
       bind (modify (\<lambda>w. w\<lparr>request_ctx_stack := butlast (request_ctx_stack w)\<rparr>)) (\<lambda>u.
       if ctx_owns_app_ctx ctx then app_context_pop exc else return ())))"

definition auto_pop ::
  "('u, 'r) request_context \<Rightarrow> exn option \<Rightarrow> (('u, 'r) world, unit) prog" where
  "auto_pop ctx exc = (if ctx_preserve ctx then return () else request_context_pop ctx exc)"

text \<open>
  \<open>Flask.wsgi_app\<close>, on the request context built from the WSGI environment. The local
  variable \<open>error\<close> is the exception that left the inner \<open>try\<close> body, if any.
\<close>

definition wsgi_app ::
  "('u, 'r) request_context \<Rightarrow> (string \<times> string) list \<Rightarrow> (('u, 'r) world, string list) prog" where
  "wsgi_app ctx environ =
     bind (attempt (request_context_push ctx)) (\<lambda>pushed.
     bind (attempt (case pushed of Inl e \<Rightarrow> raise e | Inr c \<Rightarrow> full_dispatch_request))
       (\<lambda>outcome.
     try_finally
       (bind (case outcome of
                Inr response \<Rightarrow> return response
              | Inl e \<Rightarrow> if isinstance_exn e ''Exception'' then handle_exception e else raise e)
          (\<lambda>response.
        bind (gets (\<lambda>w. rc_wsgi_call (response_class (app w)) response environ)) lift))
       (auto_pop (case pushed of Inl e \<Rightarrow> ctx | Inr c \<Rightarrow> c)
          (if should_ignore_error (case outcome of Inl e \<Rightarrow> Some e | Inr r \<Rightarrow> None) then None
           else (case outcome of Inl e \<Rightarrow> Some e | Inr r \<Rightarrow> None)))))"

section \<open>The first-request check under concurrency\<close>

text \<open>
  Several workers run \<open>try_trigger_before_first_request_functions\<close> on one application;
  a step of a worker is one statement of the function. The program counter of a worker
  says which statement comes next: the first test of the flag, the acquisition of the
  lock, the second test, the loop at an index, the assignment of the flag, the release of
  the lock at the end of the \<open>with\<close> block; a worker has then finished, or it has left
  the function with the exception of a callback (the \<open>with\<close> block releases the lock on
  the way out).
\<close>

datatype pc =
    AtCheck | AtAcquire | AtRecheck | AtLoop nat | AtSet | AtRelease | Finished | Failed exn

record ('u, 'r) system =
  sys_world :: "('u, 'r) world"
  lock_holder :: "nat option"
  pcs :: "pc list"

definition set_pc :: "nat \<Rightarrow> pc \<Rightarrow> ('u, 'r) system \<Rightarrow> ('u, 'r) system" where
  "set_pc i p s = s\<lparr>pcs := (pcs s)[i := p]\<rparr>"

definition step :: "nat \<Rightarrow> ('u, 'r) system \<Rightarrow> ('u, 'r) system" where
  "step i s =
     (if length (pcs s) \<le> i then s
      else case pcs s ! i of
        AtCheck \<Rightarrow>
          if got_first_request (app (sys_world s)) then set_pc i Finished s
          else set_pc i AtAcquire s
      | AtAcquire \<Rightarrow>
          if lock_holder s = None then set_pc i AtRecheck (s\<lparr>lock_holder := Some i\<rparr>)
          else s
      | AtRecheck \<Rightarrow>
          if got_first_request (app (sys_world s))
          then set_pc i Finished (s\<lparr>lock_holder := None\<rparr>)
          else set_pc i (AtLoop 0) s
      | AtLoop k \<Rightarrow>
          if k < length (before_first_request_funcs (app (sys_world s))) then
            (case call BeforeFirstRequest
                    (before_first_request_funcs (app (sys_world s)) ! k) [] (sys_world s) of
               (Inr rv, w') \<Rightarrow> set_pc i (AtLoop (Suc k)) (s\<lparr>sys_world := w'\<rparr>)
             | (Inl e, w') \<Rightarrow>
                 set_pc i (Failed e) (s\<lparr>sys_world := w', lock_holder := None\<rparr>))
          else set_pc i AtSet s
      | AtSet \<Rightarrow>
          set_pc i AtRelease
            (s\<lparr>sys_world := (sys_world s)\<lparr>app :=
               (app (sys_world s))\<lparr>got_first_request := True\<rparr>\<rparr>\<rparr>)
      | AtRelease \<Rightarrow> set_pc i Finished (s\<lparr>lock_holder := None\<rparr>)
      | Finished \<Rightarrow> s
      | Failed e \<Rightarrow> s)"

text \<open>A schedule is the list of the workers that take the next steps, in order.\<close>

definition run :: "nat list \<Rightarrow> ('u, 'r) system \<Rightarrow> ('u, 'r) system" where
  "run sched s = foldl (\<lambda>s i. step i s) s sched"

definition init :: "nat \<Rightarrow> ('u, 'r) world \<Rightarrow> ('u, 'r) system" where
  "init n w = \<lparr>sys_world = w, lock_holder = None, pcs = replicate n AtCheck\<rparr>"

text \<open>A worker is inside the \<open>with\<close> block: it holds the lock.\<close>

definition in_critical :: "pc \<Rightarrow> bool" where
  "in_critical p =
     (case p of AtRecheck \<Rightarrow> True | AtLoop k \<Rightarrow> True | AtSet \<Rightarrow> True | AtRelease \<Rightarrow> True
      | _ \<Rightarrow> False)"

text \<open>The calls of before-first-request functions in a trace.\<close>

definition is_before_first :: "'r event \<Rightarrow> bool" where
  "is_before_first ev = (case ev of Called rl nm args \<Rightarrow> rl = BeforeFirstRequest | _ \<Rightarrow> False)"

definition before_first_calls :: "'r event list \<Rightarrow> 'r event list" where
  "before_first_calls tr = filter is_before_first tr"

text \<open>How far the one pass over the callbacks has come.\<close>

definition progress :: "('u, 'r) system \<Rightarrow> nat" where
  "progress s =
     (if got_first_request (app (sys_world s))
      then length (before_first_request_funcs (app (sys_world s)))
      else case lock_holder s of
        None \<Rightarrow> 0
      | Some i \<Rightarrow>
          (case pcs s ! i of
             AtLoop k \<Rightarrow> k
           | AtSet \<Rightarrow> length (before_first_request_funcs (app (sys_world s)))
           | _ \<Rightarrow> 0))"

text \<open>
  The invariant of the workers of an application whose flag was not set in the world
  \<open>w\<close> they started from: a worker is inside the \<open>with\<close> block exactly when it holds
  the lock; the loop and the assignment are reached only with the flag unset, the release
  and the end only with the flag set; no worker has failed; and the calls made so far are
  the callbacks up to the progress of the pass, each once, in order.
\<close>

definition first_request_inv ::
  "nat \<Rightarrow> ('u, 'r) world \<Rightarrow> ('u, 'r) system \<Rightarrow> bool" where
  "first_request_inv n w s =
     (length (pcs s) = n \<and>
      before_first_request_funcs (app (sys_world s)) = before_first_request_funcs (app w) \<and>
      (\<forall>i. lock_holder s = Some i \<longrightarrow> i < n) \<and>
      (\<forall>i<n. in_critical (pcs s ! i) = (lock_holder s = Some i)) \<and>
      (\<forall>i<n. \<forall>k. pcs s ! i = AtLoop k \<longrightarrow>
         k \<le> length (before_first_request_funcs (app w)) \<and>
         \<not> got_first_request (app (sys_world s))) \<and>
      (\<forall>i<n. pcs s ! i = AtSet \<longrightarrow> \<not> got_first_request (app (sys_world s))) \<and>
      (\<forall>i<n. pcs s ! i = AtRelease \<longrightarrow> got_first_request (app (sys_world s))) \<and>
      (\<forall>i<n. pcs s ! i = Finished \<longrightarrow> got_first_request (app (sys_world s))) \<and>
      (\<forall>i<n. \<forall>e. pcs s ! i \<noteq> Failed e) \<and>
      before_first_calls (trace (sys_world s)) =
        before_first_calls (trace w) @
        map (\<lambda>f. Called BeforeFirstRequest (cb_name f) [])
          (take (progress s) (before_first_request_funcs (app w))))"

section \<open>A response class and a small application\<close>

text \<open>
  The canonical response representation: a body, a status line, a status code, headers
  and the \<open>Allow\<close> set.
\<close>

record response =
  body :: string
  status :: string
  status_code :: int
  headers :: "(string \<times> string) list"
  allow :: "string list"

definition sbind :: "exn + 'a \<Rightarrow> ('a \<Rightarrow> exn + 'b) \<Rightarrow> exn + 'b" where
  "sbind r f = (case r of Inl e \<Rightarrow> Inl e | Inr x \<Rightarrow> f x)"

fun header_pairs :: "response pyval list \<Rightarrow> (string \<times> string) list option" where
  "header_pairs [] = Some []"
| "header_pairs (PTuple [PStr k, PStr v] # xs) = map_option ((#) (k, v)) (header_pairs xs)"
| "header_pairs (x # xs) = None"

fun header_items :: "(string \<times> response pyval) list \<Rightarrow> (string \<times> string) list option" where
  "header_items [] = Some []"
| "header_items ((k, PStr v) # xs) = map_option ((#) (k, v)) (header_items xs)"
| "header_items (x # xs) = None"

definition Response_set_status :: "response pyval \<Rightarrow> response \<Rightarrow> exn + response" where
  "Response_set_status st r =
     (case st of PStr s \<Rightarrow> Inr (r\<lparr>status := s\<rparr>) | PBytes s \<Rightarrow> Inr (r\<lparr>status := s\<rparr>)
      | PByteArray s \<Rightarrow> Inr (r\<lparr>status := s\<rparr>)
      | _ \<Rightarrow> Inl (TypeError ''Invalid status argument''))"

definition Response_set_status_code :: "response pyval \<Rightarrow> response \<Rightarrow> exn + response" where
  "Response_set_status_code st r =
     (case st of PInt n \<Rightarrow> Inr (r\<lparr>status_code := n\<rparr>)
      | _ \<Rightarrow> Inl (TypeError ''Invalid status code''))"

definition Response_headers_extend :: "response pyval \<Rightarrow> response \<Rightarrow> exn + response" where
  "Response_headers_extend hs r =
     (case (case hs of PHeaders h \<Rightarrow> Some h | PDict d \<Rightarrow> header_items d
            | PList l \<Rightarrow> header_pairs l | PTuple t \<Rightarrow> header_pairs t | _ \<Rightarrow> None) of
        None \<Rightarrow> Inl (TypeError ''Invalid headers'')
      | Some h \<Rightarrow> Inr (r\<lparr>headers := headers r @ h\<rparr>))"

definition Response_init ::
  "response pyval \<Rightarrow> response pyval \<Rightarrow> response pyval \<Rightarrow> exn + response" where
  "Response_init rv st hs =
     sbind (case rv of PNone \<Rightarrow> Inr [] | PStr s \<Rightarrow> Inr s | PBytes s \<Rightarrow> Inr s
            | PByteArray s \<Rightarrow> Inr s | _ \<Rightarrow> Inl (TypeError ''Invalid body''))
       (\<lambda>b.
     sbind (let r = \<lparr>body = b, status = ''200 OK'', status_code = 200, headers = [],
                     allow = []\<rparr>
            in if st = PNone then Inr r
               else if is_text st then Response_set_status st r
               else Response_set_status_code st r)
       (\<lambda>r. if hs = PNone then Inr r else Response_headers_extend hs r))"

text \<open>
  Modelled from the spec: the response class of the application (module \<open>__wrappers\<close>) is
  not among the sources. The spec's canonical response has a status, headers and a body;
  a body alone gives status 200 and the body unchanged, a textual status overwrites the
  status line verbatim, a numeric status overwrites only the status code, and supplied
  headers are appended to the headers already present.
\<close>

definition Response :: "response response_class" where
  "Response =
     \<lparr>rc_init = Response_init,
      rc_force_type = (\<lambda>rv env. case rv of
          PResponse r \<Rightarrow> Inr r
        | PExc e \<Rightarrow>
            (case exc_code e of
               Some c \<Rightarrow> Inr \<lparr>body = exc_msg e, status = [], status_code = c, headers = [],
                              allow = []\<rparr>
             | None \<Rightarrow> Inl (TypeError ''object is not callable''))
        | _ \<Rightarrow> Inl (TypeError ''object is not callable'')),
      rc_set_status = Response_set_status,
      rc_set_status_code = Response_set_status_code,
      rc_headers_extend = Response_headers_extend,
      rc_allow_update = (\<lambda>ms r. r\<lparr>allow := allow r @ ms\<rparr>),
      rc_wsgi_call = (\<lambda>rv env. case rv of
          PResponse r \<Rightarrow> Inr [body r]
        | PExc e \<Rightarrow> if exc_code e = None then Inl (TypeError ''object is not callable'')
                    else Inr [exc_msg e]
        | _ \<Rightarrow> Inl (TypeError ''object is not callable''))\<rparr>"

text \<open>An application with nothing registered, in production mode, and an empty world.\<close>

definition app0 :: "(nat, response) flask" where
  "app0 =
     \<lparr>import_name = ''app'', debug = False, testing = False, PROPAGATE_EXCEPTIONS = None,
      TRAP_HTTP_EXCEPTIONS = False, TRAP_BAD_REQUEST_ERRORS = None,
      view_functions = [], error_handler_spec = [], before_request_funcs = [],
      before_first_request_funcs = [], after_request_funcs = [],
      teardown_request_funcs = [], teardown_appcontext_funcs = [],
      url_value_preprocessors = [], url_map = [],
      url_map_add = (\<lambda>r rules. (Inr (), rules @ [r])), got_first_request = False,
      response_class = Response,
      session_interface = \<lparr>is_null_session = (\<lambda>s. s = PNone), save_session = (\<lambda>s r. Inr r)\<rparr>,
      url_rule_class = (\<lambda>s ms ep. Inr \<lparr>rule_string = s, rule_methods = ms, rule_endpoint = ep,
                                        provide_automatic_options = None\<rparr>)\<rparr>"

definition world0 :: "(nat, response) world" where
  "world0 = \<lparr>app = app0, user = 0, trace = [], request_ctx_stack = [], app_ctx_stack = []\<rparr>"

definition request0 :: "response request" where
  "request0 =
     \<lparr>req_method = ''GET'', req_path = ''/'', req_environ = [], req_blueprint = None,
      req_endpoint = Some ''index'', req_view_args = Some [],
      req_url_rule = Some \<lparr>rule_string = ''/'', rule_methods = {Item_str ''GET'', Item_str ''OPTIONS''},
                            rule_endpoint = ''index'', provide_automatic_options = Some True\<rparr>,
      req_routing_exception = None\<rparr>"

definition ctx0 :: "(nat, response) request_context" where
  "ctx0 =
     \<lparr>ctx_request = request0, ctx_session = PNone,
      ctx_url_adapter = \<lparr>allowed_methods = Some [''GET'', ''OPTIONS''], adapter_match = None\<rparr>,
      ctx_after_request_functions = [], ctx_preserve = False, ctx_owns_app_ctx = True\<rparr>"

definition app_ctx0 :: "response app_context" where
  "app_ctx0 = \<lparr>ctx_app = ''app'', ctx_g = [], ctx_refcnt = 1\<rparr>"

text \<open>The world while a request of the application is being handled.\<close>

definition world1 :: "(nat, response) world" where
  "world1 = world0\<lparr>request_ctx_stack := [ctx0], app_ctx_stack := [app_ctx0]\<rparr>"

definition response0 :: response where
  "response0 =
     \<lparr>body = ''hello'', status = ''200 OK'', status_code = 200,
      headers = [(''Content-Type'', ''text/html'')], allow = []\<rparr>"

text \<open>
  A request inside the blueprint \<open>admin\<close>, with one handler for \<open>Exception\<close> registered
  on the application and one on the blueprint.
\<close>

text \<open>
  The example functions are the functions of one module, told apart by their names: the
  identity of each is the number its name spells in base 256.
\<close>

definition name_id :: "string \<Rightarrow> nat" where
  "name_id nm = foldl (\<lambda>n c. 256 * n + of_char c) 0 nm"

definition const_callback :: "string \<Rightarrow> response pyval \<Rightarrow> (nat, response) callback" where
  "const_callback nm v =
     \<lparr>cb_name = nm, cb_id = name_id nm, cb_methods = None, cb_required_methods = Methods_iter [],
      cb_provide_automatic_options = None, cb_run = (\<lambda>args u. (Inr v, Suc u))\<rparr>"

definition raising_callback :: "string \<Rightarrow> exn \<Rightarrow> (nat, response) callback" where
  "raising_callback nm e =
     \<lparr>cb_name = nm, cb_id = name_id nm, cb_methods = None, cb_required_methods = Methods_iter [],
      cb_provide_automatic_options = None, cb_run = (\<lambda>args u. (Inl e, Suc u))\<rparr>"

definition ValueError :: "string \<Rightarrow> exn" where
  "ValueError msg = Exn [''ValueError'', ''Exception'', ''BaseException'', ''object''] None msg [msg]"

definition world_admin :: "(nat, response) world" where
  "world_admin =
     world0\<lparr>app := app0\<lparr>error_handler_spec :=
               [(None, [(None, [(''Exception'', const_callback ''on_error'' (PStr ''app''))])]),
                (Some ''admin'',
                   [(None, [(''Exception'', const_callback ''admin_on_error'' (PStr ''bp''))])])]\<rparr>,
            request_ctx_stack := [ctx0\<lparr>ctx_request := request0\<lparr>req_blueprint := Some ''admin''\<rparr>\<rparr>],
            app_ctx_stack := [app_ctx0]\<rparr>"

text \<open>
  An application with the view function \<open>index\<close> registered, a second function, and the
  endpoint helper: the name of the function.
\<close>

definition world_index :: "(nat, response) world" where
  "world_index =
     world0\<lparr>app := app0\<lparr>view_functions :=
       [(''index'', const_callback ''index'' (PStr ''Hello Flask''))]\<rparr>\<rparr>"

definition name_of_view_func :: "(nat, response) callback option \<Rightarrow> exn + string" where
  "name_of_view_func vf =
     (case vf of
        None \<Rightarrow> Inl (AssertionError ''expected view func if endpoint is not provided.'')
      | Some f \<Rightarrow> Inr (cb_name f))"

text \<open>
  A request whose routing outcome is a redirect suggestion: as a \<open>GET\<close> in production
  mode, and as a \<open>POST\<close> in debug mode.
\<close>

definition redirect0 :: exn where
  "redirect0 =
     Exn [''RequestRedirect'', ''HTTPException'', ''RoutingException'', ''Exception'',
          ''BaseException'', ''object''] (Some 308) ''/users/'' [''/users/'']"

definition request_redirect :: "string \<Rightarrow> response request" where
  "request_redirect m =
     request0\<lparr>req_method := m, req_path := ''/users'', req_endpoint := None,
              req_view_args := None, req_url_rule := None,
              req_routing_exception := Some redirect0\<rparr>"

definition world_redirect :: "string \<Rightarrow> bool \<Rightarrow> (nat, response) world" where
  "world_redirect m dbg =
     world0\<lparr>app := app0\<lparr>debug := dbg\<rparr>,
            request_ctx_stack := [ctx0\<lparr>ctx_request := request_redirect m\<rparr>],
            app_ctx_stack := [app_ctx0]\<rparr>"

text \<open>A request of an application whose only after-request function raises.\<close>

definition world_after :: "(nat, response) world" where
  "world_after =
     world1\<lparr>app := app0\<lparr>after_request_funcs :=
       [(None, [raising_callback ''add_header'' (ValueError ''boom'')])]\<rparr>\<rparr>"

definition response_ok :: response where
  "response_ok =
     \<lparr>body = ''ok'', status = ''200 OK'', status_code = 200, headers = [], allow = []\<rparr>"

text \<open>
  The application in testing mode (exceptions propagate), and with a handler registered
  for the status code 500.
\<close>

definition world_testing :: "(nat, response) world" where
  "world_testing = world1\<lparr>app := app0\<lparr>testing := True\<rparr>\<rparr>"

definition world_500 :: "(nat, response) world" where
  "world_500 =
     world1\<lparr>app := app0\<lparr>error_handler_spec :=
       [(None, [(Some 500, [(''InternalServerError'',
                             const_callback ''server_error'' (PStr ''sorry''))])])]\<rparr>\<rparr>"

text \<open>
  An application that has handled its first request, with a URL-value preprocessor, two
  before-request functions of which the first answers the request itself, and a view.
\<close>

definition world_before :: "(nat, response) world" where
  "world_before =
     world1\<lparr>app := app0\<lparr>
       view_functions := [(''index'', const_callback ''index'' (PStr ''Hello Flask''))],
       before_request_funcs :=
         [(None, [const_callback ''auth'' (PStr ''denied''), const_callback ''later'' PNone])],
       url_value_preprocessors := [(None, [const_callback ''pull_lang'' PNone])],
       got_first_request := True\<rparr>\<rparr>"

text \<open>
  The same request when the handlers are registered for the class \<open>HTTPException\<close>, and
  an HTTP exception of that class, which has no status code.
\<close>

definition http_error :: exn where
  "http_error =
     Exn [''HTTPException'', ''Exception'', ''BaseException'', ''object''] None ''teapot'' []"

definition world_admin_http :: "(nat, response) world" where
  "world_admin_http =
     world0\<lparr>app := app0\<lparr>error_handler_spec :=
               [(None, [(None, [(''HTTPException'', const_callback ''on_http'' (PStr ''app''))])]),
                (Some ''admin'',
                   [(None, [(''HTTPException'', const_callback ''admin_on_http'' (PStr ''bp''))])])]\<rparr>,
            request_ctx_stack := [ctx0\<lparr>ctx_request := request0\<lparr>req_blueprint := Some ''admin''\<rparr>\<rparr>],
            app_ctx_stack := [app_ctx0]\<rparr>"

section \<open>Running programs\<close>

lemmas prog_defs = return_def raise_def bind_def lift_def gets_def

lemma request_ctx_top_run:
  "request_ctx_stack w \<noteq> [] \<Longrightarrow>
   request_ctx_top w = (Inr (last (request_ctx_stack w)), w)"
  by (simp add: request_ctx_top_def top_def prog_defs)

lemma call_run:
  "call rl f args w =
     (fst (cb_run f args (user w)),
      w\<lparr>user := snd (cb_run f args (user w)),
        trace := trace w @ [Called rl (cb_name f) args]\<rparr>)"
  by (simp add: call_def split: prod.split)

lemma full_dispatch_request_run:
  assumes "try_trigger_before_first_request_functions w' = (Inr (), w0)"
  shows "full_dispatch_request w' =
     (case preprocess_request (w0\<lparr>trace := trace w0 @ [Signal ''request-started'' []]\<rparr>) of
        (Inr rv, w2) \<Rightarrow>
          if rv = PNone then
            (case dispatch_request w2 of
               (Inr rv', w3) \<Rightarrow> finalize_request rv' False w3
             | (Inl e, w3) \<Rightarrow>
                 if isinstance_exn e ''Exception''
                 then bind (handle_user_exception e) (\<lambda>rv. finalize_request rv False) w3
                 else (Inl e, w3))
          else finalize_request rv False w2
      | (Inl e, w2) \<Rightarrow>
          if isinstance_exn e ''Exception''
          then bind (handle_user_exception e) (\<lambda>rv. finalize_request rv False) w2
          else (Inl e, w2))"
  using assms
  by (simp add: full_dispatch_request_def bind_def try_except_def emit_def return_def
      split: prod.split sum.split)

lemma try_except_run:
  "try_except m h w =
     (case m w of
        (Inl e, w') \<Rightarrow> if isinstance_exn e ''Exception'' then h e w' else (Inl e, w')
      | (Inr x, w') \<Rightarrow> (Inr x, w'))"
  by (simp add: try_except_def)

lemma finalize_request_run:
  "finalize_request rv from_error_handler w =
     (case make_response rv w of
        (Inl e, w1) \<Rightarrow> (Inl e, w1)
      | (Inr response, w1) \<Rightarrow>
          (case process_response (PResponse response) w1 of
             (Inr response', w2) \<Rightarrow>
               (Inr response', w2\<lparr>trace := trace w2 @ [Signal ''request-finished'' [response']]\<rparr>)
           | (Inl e, w2) \<Rightarrow>
               if isinstance_exn e ''Exception'' \<and> from_error_handler
               then (Inr (PResponse response),
                     w2\<lparr>trace := trace w2 @ [Logged finalizing_failed_msg]\<rparr>)
               else (Inl e, w2)))"
  by (simp add: finalize_request_def try_except_def emit_def prog_defs
      split: prod.split sum.split)

section \<open>Preprocessing and short-circuit\<close>

lemma call_each_raise:
  "fst (cb_run f args (user w)) = Inl e \<Longrightarrow>
   call_each rl (f # fs) args w =
     (Inl e, w\<lparr>user := snd (cb_run f args (user w)),
               trace := trace w @ [Called rl (cb_name f) args]\<rparr>)"
  by (simp add: bind_def call_run)

lemma call_each_next:
  "fst (cb_run f args (user w)) = Inr v \<Longrightarrow>
   call_each rl (f # fs) args w =
     call_each rl fs args
       (w\<lparr>user := snd (cb_run f args (user w)),
          trace := trace w @ [Called rl (cb_name f) args]\<rparr>)"
  by (simp add: bind_def call_run)

lemma call_each_trace:
  "\<exists>n \<le> length fs.
     trace (snd (call_each rl fs args w)) =
       trace w @ map (\<lambda>f. Called rl (cb_name f) args) (take n fs) \<and>
     (fst (call_each rl fs args w) = Inr () \<longrightarrow> n = length fs)"
proof (induction fs arbitrary: w)
  case Nil
  then show ?case by (simp add: return_def)
next
  case (Cons f fs)
  let ?w1 = "w\<lparr>user := snd (cb_run f args (user w)),
      trace := trace w @ [Called rl (cb_name f) args]\<rparr>"
  show ?case
  proof (cases "fst (cb_run f args (user w))")
    case (Inl e)
    show ?thesis
      unfolding call_each_raise [OF Inl]
      by (intro exI [of _ 1]) simp
  next
    case (Inr v)
    obtain n where n: "n \<le> length fs"
      "trace (snd (call_each rl fs args ?w1)) =
         trace ?w1 @ map (\<lambda>f. Called rl (cb_name f) args) (take n fs)"
      "fst (call_each rl fs args ?w1) = Inr () \<longrightarrow> n = length fs"
      using Cons.IH [of ?w1] by blast
    show ?thesis
      using n unfolding call_each_next [OF Inr]
      by (intro exI [of _ "Suc n"]) simp
  qed
qed

lemma call_each_frame:
  "app (snd (call_each rl fs args w)) = app w \<and>
   request_ctx_stack (snd (call_each rl fs args w)) = request_ctx_stack w \<and>
   app_ctx_stack (snd (call_each rl fs args w)) = app_ctx_stack w"
proof (induction fs arbitrary: w)
  case Nil
  then show ?case by (simp add: return_def)
next
  case (Cons f fs)
  let ?w1 = "w\<lparr>user := snd (cb_run f args (user w)),
      trace := trace w @ [Called rl (cb_name f) args]\<rparr>"
  show ?case
  proof (cases "fst (cb_run f args (user w))")
    case (Inl e)
    show ?thesis
      unfolding call_each_raise [OF Inl] by simp
  next
    case (Inr v)
    show ?thesis
      using Cons.IH [of ?w1] unfolding call_each_next [OF Inr] by simp
  qed
qed

lemma before_request_loop_first:
  "fst (cb_run f [] (user w)) = Inr rv \<Longrightarrow> rv \<noteq> PNone \<Longrightarrow>
   before_request_loop (f # fs) w =
     (Inr rv, w\<lparr>user := snd (cb_run f [] (user w)),
                trace := trace w @ [Called BeforeRequest (cb_name f) []]\<rparr>)"
  by (simp add: bind_def call_run return_def)

lemma before_request_loop_next:
  "fst (cb_run f [] (user w)) = Inr PNone \<Longrightarrow>
   before_request_loop (f # fs) w =
     before_request_loop fs
       (w\<lparr>user := snd (cb_run f [] (user w)),
          trace := trace w @ [Called BeforeRequest (cb_name f) []]\<rparr>)"
  by (simp add: bind_def call_run)

lemma before_request_loop_raise:
  "fst (cb_run f [] (user w)) = Inl e \<Longrightarrow>
   before_request_loop (f # fs) w =
     (Inl e, w\<lparr>user := snd (cb_run f [] (user w)),
               trace := trace w @ [Called BeforeRequest (cb_name f) []]\<rparr>)"
  by (simp add: bind_def call_run)

lemma before_request_loop_trace:
  "\<exists>m \<le> length fs.
     trace (snd (before_request_loop fs w)) =
       trace w @ map (\<lambda>f. Called BeforeRequest (cb_name f) []) (take m fs) \<and>
     (fst (before_request_loop fs w) = Inr PNone \<longrightarrow> m = length fs) \<and>
     (\<forall>rv. fst (before_request_loop fs w) = Inr rv \<and> rv \<noteq> PNone \<longrightarrow> 0 < m)"
proof (induction fs arbitrary: w)
  case Nil
  then show ?case by (simp add: return_def)
next
  case (Cons f fs)
  let ?w1 = "w\<lparr>user := snd (cb_run f [] (user w)),
      trace := trace w @ [Called BeforeRequest (cb_name f) []]\<rparr>"
  show ?case
  proof (cases "fst (cb_run f [] (user w))")
    case (Inl e)
    show ?thesis
      unfolding before_request_loop_raise [OF Inl]
      by (intro exI [of _ 1]) simp
  next
    case (Inr v)
    show ?thesis
    proof (cases "v = PNone")
      case False
      show ?thesis
        using False unfolding before_request_loop_first [OF Inr False]
        by (intro exI [of _ 1]) simp
    next
      case True
      have c: "before_request_loop (f # fs) w = before_request_loop fs ?w1"
        using Inr True by (simp only: before_request_loop_next)
      obtain m where m: "m \<le> length fs"
        "trace (snd (before_request_loop fs ?w1)) =
           trace ?w1 @ map (\<lambda>f. Called BeforeRequest (cb_name f) []) (take m fs)"
        "fst (before_request_loop fs ?w1) = Inr PNone \<longrightarrow> m = length fs"
        using Cons.IH [of ?w1] by blast
      show ?thesis
        using m unfolding c
        by (intro exI [of _ "Suc m"]) simp
    qed
  qed
qed

lemma preprocess_request_run:
  assumes "request_ctx_stack w \<noteq> []"
  shows "preprocess_request w =
     (case call_each UrlValuePreprocessor
            (get_funcs (url_value_preprocessors (app w)) None @
             blueprint_funcs (url_value_preprocessors (app w))
               (req_blueprint (ctx_request (last (request_ctx_stack w)))))
            [case req_endpoint (ctx_request (last (request_ctx_stack w))) of
               None \<Rightarrow> PNone | Some ep \<Rightarrow> PStr ep,
             case req_view_args (ctx_request (last (request_ctx_stack w))) of
               None \<Rightarrow> PNone | Some va \<Rightarrow> PDict va] w of
        (Inl e, w1) \<Rightarrow> (Inl e, w1)
      | (Inr u, w1) \<Rightarrow>
          before_request_loop
            (get_funcs (before_request_funcs (app w)) None @
             blueprint_funcs (before_request_funcs (app w))
               (req_blueprint (ctx_request (last (request_ctx_stack w))))) w1)"
proof -
  have a: "app w1 = app w"
    if "call_each rl fs args w = (r, w1)" for rl fs args r w1
    using call_each_frame [of rl fs args w] that by simp
  show ?thesis
    using assms
    by (auto simp: preprocess_request_def bind_def request_ctx_top_run gets_def a
        split: prod.split sum.split)
qed

section \<open>Proxies outside and inside a context\<close>

lemma request_ctx_err_msg_prefix:
  "prefix ''Working outside of request context.'' request_ctx_err_msg"
  by (simp add: request_ctx_err_msg_def)

lemma app_ctx_err_msg_prefix:
  "prefix ''Working outside of application context.'' app_ctx_err_msg"
  by (simp add: app_ctx_err_msg_def)

lemma lookup_req_object_empty:
  "request_ctx_stack w = [] \<Longrightarrow>
   lookup_req_object name w = (Inl (RuntimeError request_ctx_err_msg), w)"
  by (simp add: lookup_req_object_def top_def raise_def)

lemma lookup_req_object_top:
  "request_ctx_stack w \<noteq> [] \<Longrightarrow>
   lookup_req_object name w = (Inr (name (last (request_ctx_stack w))), w)"
  by (simp add: lookup_req_object_def top_def return_def)

lemma lookup_app_object_empty:
  "app_ctx_stack w = [] \<Longrightarrow>
   lookup_app_object name w = (Inl (RuntimeError app_ctx_err_msg), w)"
  by (simp add: lookup_app_object_def top_def raise_def)

lemma lookup_app_object_top:
  "app_ctx_stack w \<noteq> [] \<Longrightarrow>
   lookup_app_object name w = (Inr (name (last (app_ctx_stack w))), w)"
  by (simp add: lookup_app_object_def top_def return_def)

lemma find_app_eq: "find_app = lookup_app_object ctx_app"
  by (simp add: find_app_def lookup_app_object_def)

text \<open>
  Claim C9. An access through the \<open>request\<close> or \<open>session\<close> proxy on an empty request
  stack, or through \<open>current_app\<close> or \<open>g\<close> on an empty application stack, raises a
  \<open>RuntimeError\<close> and leaves the world as it is; the message starts with the name of the
  missing kind of context (``Working outside of request context.'' for the first two,
  ``Working outside of application context.'' for the last two). On a stack that is not
  empty the access returns that attribute of the context on top of the stack.
\<close>

theorem proxy_lookup:
  "(request_ctx_stack w = [] \<longrightarrow>
      request_proxy w = (Inl (RuntimeError request_ctx_err_msg), w) \<and>
      session_proxy w = (Inl (RuntimeError request_ctx_err_msg), w)) \<and>
   (app_ctx_stack w = [] \<longrightarrow>
      current_app w = (Inl (RuntimeError app_ctx_err_msg), w) \<and>
      g_proxy w = (Inl (RuntimeError app_ctx_err_msg), w)) \<and>
   (request_ctx_stack w \<noteq> [] \<longrightarrow>
      request_proxy w = (Inr (ctx_request (last (request_ctx_stack w))), w) \<and>
      session_proxy w = (Inr (ctx_session (last (request_ctx_stack w))), w)) \<and>
   (app_ctx_stack w \<noteq> [] \<longrightarrow>
      current_app w = (Inr (ctx_app (last (app_ctx_stack w))), w) \<and>
      g_proxy w = (Inr (ctx_g (last (app_ctx_stack w))), w)) \<and>
   prefix ''Working outside of request context.'' (exc_msg (RuntimeError request_ctx_err_msg)) \<and>
   prefix ''Working outside of application context.'' (exc_msg (RuntimeError app_ctx_err_msg)) \<and>
   \<not> prefix ''Working outside of request context.'' app_ctx_err_msg \<and>
   \<not> prefix ''Working outside of application context.'' request_ctx_err_msg"
proof -
  have m1: "prefix ''Working outside of request context.''
              (exc_msg (RuntimeError request_ctx_err_msg))"
    using request_ctx_err_msg_prefix by (simp add: RuntimeError_def)
  have m2: "prefix ''Working outside of application context.''
              (exc_msg (RuntimeError app_ctx_err_msg))"
    using app_ctx_err_msg_prefix by (simp add: RuntimeError_def)
  have m3: "\<not> prefix ''Working outside of request context.'' app_ctx_err_msg"
    by (simp add: app_ctx_err_msg_def)
  have m4: "\<not> prefix ''Working outside of application context.'' request_ctx_err_msg"
    by (simp add: request_ctx_err_msg_def)
  show ?thesis
    using m1 m2 m3 m4
    by (simp add: request_proxy_def session_proxy_def current_app_def g_proxy_def find_app_eq
        lookup_req_object_empty lookup_req_object_top lookup_app_object_empty
        lookup_app_object_top)
qed

theorem proxy_lookup_witness:
  "request_ctx_stack world0 = [] \<and> app_ctx_stack world0 = [] \<and>
   request_proxy world0 = (Inl (RuntimeError request_ctx_err_msg), world0) \<and>
   g_proxy world0 = (Inl (RuntimeError app_ctx_err_msg), world0) \<and>
   request_ctx_stack world1 \<noteq> [] \<and> app_ctx_stack world1 \<noteq> [] \<and>
   request_proxy world1 = (Inr request0, world1) \<and>
   session_proxy world1 = (Inr PNone, world1) \<and>
   current_app world1 = (Inr ''app'', world1) \<and>
   g_proxy world1 = (Inr [], world1)"
  using proxy_lookup [of world0] proxy_lookup [of world1]
  by (simp add: world0_def world1_def ctx0_def app_ctx0_def)

section \<open>Response coercion\<close>

lemma make_response_pair_status:
  "\<not> header_like s \<Longrightarrow> make_response (PTuple [b, s]) = make_response (PTuple [b, s, PNone])"
  by (simp add: make_response_def)

lemma make_response_pair_headers:
  "header_like h \<Longrightarrow> make_response (PTuple [b, h]) = make_response (PTuple [b, PNone, h])"
  by (simp add: make_response_def)

lemma make_response_bad_length:
  "length xs \<noteq> 2 \<Longrightarrow> length xs \<noteq> 3 \<Longrightarrow>
   make_response (PTuple xs) w = (Inl (TypeError invalid_tuple_msg), w)"
  by (simp add: make_response_def prog_defs)

lemma make_response_None:
  "make_response PNone w = (Inl (TypeError none_body_msg), w)"
  by (simp add: make_response_def prog_defs)

lemma make_response_None_triple:
  "make_response (PTuple [PNone, s, h]) w = (Inl (TypeError none_body_msg), w)"
  by (simp add: make_response_def prog_defs)

lemma make_response_None_pair:
  "make_response (PTuple [PNone, x]) w = (Inl (TypeError none_body_msg), w)"
  by (simp add: make_response_def prog_defs)

lemma make_response_text:
  "is_text b \<Longrightarrow> make_response b w = (rc_init (response_class (app w)) b PNone PNone, w)"
  by (cases b; cases "rc_init (response_class (app w)) b PNone PNone")
     (simp_all add: make_response_def prog_defs is_text_def truthy_def)

lemma make_response_text_triple:
  "is_text b \<Longrightarrow>
   make_response (PTuple [b, s, h]) w = (rc_init (response_class (app w)) b s h, w)"
  by (cases b; cases "rc_init (response_class (app w)) b s h")
     (simp_all add: make_response_def prog_defs is_text_def truthy_def)

lemma make_response_object:
  "make_response (PResponse r) w = (Inr r, w)"
  by (simp add: make_response_def prog_defs truthy_def)

lemma make_response_object_text_status:
  "is_text s \<Longrightarrow>
   make_response (PTuple [PResponse r, s, h]) w =
     (case rc_set_status (response_class (app w)) s r of
        Inl e \<Rightarrow> (Inl e, w)
      | Inr r' \<Rightarrow> if truthy h then (rc_headers_extend (response_class (app w)) h r', w)
                  else (Inr r', w))"
  by (cases s; cases "rc_set_status (response_class (app w)) s r")
     (simp_all add: make_response_def prog_defs is_text_def split: sum.splits)

lemma make_response_object_other_status:
  "\<not> is_text s \<Longrightarrow> s \<noteq> PNone \<Longrightarrow>
   make_response (PTuple [PResponse r, s, h]) w =
     (case rc_set_status_code (response_class (app w)) s r of
        Inl e \<Rightarrow> (Inl e, w)
      | Inr r' \<Rightarrow> if truthy h then (rc_headers_extend (response_class (app w)) h r', w)
                  else (Inr r', w))"
  by (cases "rc_set_status_code (response_class (app w)) s r")
     (simp_all add: make_response_def prog_defs split: sum.splits)

lemma make_response_object_headers:
  "truthy h \<Longrightarrow>
   make_response (PTuple [PResponse r, PNone, h]) w =
     (rc_headers_extend (response_class (app w)) h r, w)"
  by (cases "rc_headers_extend (response_class (app w)) h r")
     (simp_all add: make_response_def prog_defs)

lemmas Response_defs =
  Response_def Response_init_def Response_set_status_def Response_set_status_code_def
  Response_headers_extend_def sbind_def

lemma make_response_Response_examples:
  assumes R: "response_class (app w) = Response"
  shows "make_response (PStr t) w =
           (Inr \<lparr>body = t, status = ''200 OK'', status_code = 200, headers = [], allow = []\<rparr>, w)"
    and "make_response (PTuple [PStr t, PInt n]) w =
           (Inr \<lparr>body = t, status = ''200 OK'', status_code = n, headers = [], allow = []\<rparr>, w)"
    and "make_response (PTuple [PStr t, PDict [(k, PStr v)]]) w =
           (Inr \<lparr>body = t, status = ''200 OK'', status_code = 200, headers = [(k, v)],
                 allow = []\<rparr>, w)"
    and "make_response (PTuple [PStr t, PInt n, PDict [(k, PStr v)]]) w =
           (Inr \<lparr>body = t, status = ''200 OK'', status_code = n, headers = [(k, v)],
                 allow = []\<rparr>, w)"
  by (simp_all add: make_response_text make_response_text_triple make_response_pair_status
      make_response_pair_headers is_text_def header_like_def R Response_defs)

lemma make_response_Response_object:
  assumes R: "response_class (app w) = Response"
  shows "make_response (PTuple [PResponse r, PStr l]) w = (Inr (r\<lparr>status := l\<rparr>), w)"
    and "make_response (PTuple [PResponse r, PInt n]) w = (Inr (r\<lparr>status_code := n\<rparr>), w)"
    and "make_response (PTuple [PResponse r, PHeaders hs]) w =
           (Inr (r\<lparr>headers := headers r @ hs\<rparr>), w)"
    and "make_response (PTuple [PResponse r, PStr l, PHeaders hs]) w =
           (Inr (r\<lparr>status := l, headers := headers r @ hs\<rparr>), w)"
    and "make_response (PTuple [PResponse r, PInt n, PHeaders hs]) w =
           (Inr (r\<lparr>status_code := n, headers := headers r @ hs\<rparr>), w)"
  by (simp_all add: make_response_def prog_defs is_text_def header_like_def truthy_def R
      Response_defs)

lemma make_response_object_no_status:
  "make_response (PTuple [PResponse r, PNone, h]) w =
     (if truthy h then (rc_headers_extend (response_class (app w)) h r, w) else (Inr r, w))"
  by (cases "rc_headers_extend (response_class (app w)) h r")
     (simp_all add: make_response_def prog_defs)

lemma make_response_single:
  "\<forall>xs. b \<noteq> PTuple xs \<Longrightarrow> make_response b = make_response (PTuple [b, PNone, PNone])"
  by (cases b) (simp_all add: make_response_def)

lemma make_response_pair:
  "make_response (PTuple [b, x]) =
     (case x of
        PHeaders hs \<Rightarrow> make_response (PTuple [b, PNone, x])
      | PDict d \<Rightarrow> make_response (PTuple [b, PNone, x])
      | PTuple t \<Rightarrow> make_response (PTuple [b, PNone, x])
      | PList l \<Rightarrow> make_response (PTuple [b, PNone, x])
      | _ \<Rightarrow> make_response (PTuple [b, x, PNone]))"
  by (cases x) (simp_all add: make_response_def header_like_def)

lemma make_response_force_type:
  assumes "request_ctx_stack w \<noteq> []" and "b \<noteq> PNone" and "\<not> is_text b"
    and "\<forall>r. b \<noteq> PResponse r"
  shows "make_response (PTuple [b, s, h]) w =
     (case rc_force_type (response_class (app w)) b
             (req_environ (ctx_request (last (request_ctx_stack w)))) of
        Inl e \<Rightarrow>
          (Inl (if isinstance_exn e ''TypeError'' then TypeError (invalid_type_msg e b) else e), w)
      | Inr r \<Rightarrow> make_response (PTuple [PResponse r, s, h]) w)"
  using assms
  by (cases b)
     (simp_all add: make_response_def prog_defs is_text_def request_proxy_def
        lookup_req_object_top split: sum.split)

lemma make_response_outside_request:
  assumes "request_ctx_stack w = []" and "b \<noteq> PNone" and "\<not> is_text b"
    and "\<forall>r. b \<noteq> PResponse r"
  shows "make_response (PTuple [b, s, h]) w = (Inl (RuntimeError request_ctx_err_msg), w)"
  using assms
  by (cases b)
     (simp_all add: make_response_def prog_defs is_text_def request_proxy_def
        lookup_req_object_empty)

text \<open>
  Claim C2. \<open>make_response\<close> on every shape of view return value, for any response
  class. A value that is not a tuple is treated as the 3-tuple \<open>(value, None, None)\<close>.
  A 3-tuple is \<open>(body, status, headers)\<close>: a text body is given to the constructor with
  that status and those headers; a body that is neither text nor a response object is
  made a response by \<open>force_type\<close> (a \<open>TypeError\<close> of it is raised again with the
  explanation of the valid return types, and outside of a request the access to
  \<open>request.environ\<close> fails), and the status and the headers are then applied to that
  response as to a response object; on a response object a textual status is assigned to
  \<open>status\<close>, any other status to \<open>status_code\<close>, no status leaves both, and then
  headers that are not empty extend its headers. A 2-tuple is read as
  \<open>(body, None, headers)\<close> when its second element is a \<open>Headers\<close> object, a
  dictionary, a tuple or a list and as \<open>(body, status, None)\<close> otherwise; a tuple of any
  other length and a \<open>None\<close> body are rejected with a \<open>TypeError\<close>. With the response
  class of the spec: a string alone gives status 200 and the same body, \<open>(body, 404)\<close>
  gives status code 404, \<open>(body, {k: v})\<close> and \<open>(body, [(k, v)])\<close> give header
  \<open>k = v\<close> and status 200, a textual status replaces the status line and leaves the
  code, a numeric status replaces the code and leaves the status line, and supplied
  headers are appended after the headers the response object already has.
\<close>

theorem make_response_coercion:
  "(is_text b \<longrightarrow>
      make_response (PTuple [b, s, h]) w = (rc_init (response_class (app w)) b s h, w)) \<and>
   (is_text s \<longrightarrow>
      make_response (PTuple [PResponse r, s, h]) w =
        (case rc_set_status (response_class (app w)) s r of
           Inl e \<Rightarrow> (Inl e, w)
         | Inr r' \<Rightarrow> if truthy h then (rc_headers_extend (response_class (app w)) h r', w)
                     else (Inr r', w))) \<and>
   (\<not> is_text s \<and> s \<noteq> PNone \<longrightarrow>
      make_response (PTuple [PResponse r, s, h]) w =
        (case rc_set_status_code (response_class (app w)) s r of
           Inl e \<Rightarrow> (Inl e, w)
         | Inr r' \<Rightarrow> if truthy h then (rc_headers_extend (response_class (app w)) h r', w)
                     else (Inr r', w))) \<and>
   (header_like x \<longrightarrow> make_response (PTuple [b, x]) w = make_response (PTuple [b, PNone, x]) w) \<and>
   (\<not> header_like x \<longrightarrow>
      make_response (PTuple [b, x]) w = make_response (PTuple [b, x, PNone]) w) \<and>
   (length xs \<noteq> 2 \<and> length xs \<noteq> 3 \<longrightarrow>
      make_response (PTuple xs) w = (Inl (TypeError invalid_tuple_msg), w)) \<and>
   make_response PNone w = (Inl (TypeError none_body_msg), w) \<and>
   make_response (PTuple [PNone, x]) w = (Inl (TypeError none_body_msg), w) \<and>
   make_response (PTuple [PNone, s, h]) w = (Inl (TypeError none_body_msg), w) \<and>
   (is_text b \<longrightarrow> make_response b w = (rc_init (response_class (app w)) b PNone PNone, w)) \<and>
   make_response (PTuple [PResponse r, PNone, h]) w =
     (if truthy h then (rc_headers_extend (response_class (app w)) h r, w) else (Inr r, w)) \<and>
   (request_ctx_stack w \<noteq> [] \<and> b \<noteq> PNone \<and> \<not> is_text b \<and> (\<forall>r. b \<noteq> PResponse r) \<longrightarrow>
      make_response (PTuple [b, s, h]) w =
        (case rc_force_type (response_class (app w)) b
                (req_environ (ctx_request (last (request_ctx_stack w)))) of
           Inl e \<Rightarrow>
             (Inl (if isinstance_exn e ''TypeError'' then TypeError (invalid_type_msg e b)
                   else e), w)
         | Inr r \<Rightarrow> make_response (PTuple [PResponse r, s, h]) w)) \<and>
   (request_ctx_stack w = [] \<and> b \<noteq> PNone \<and> \<not> is_text b \<and> (\<forall>r. b \<noteq> PResponse r) \<longrightarrow>
      make_response (PTuple [b, s, h]) w = (Inl (RuntimeError request_ctx_err_msg), w)) \<and>
   ((\<forall>xs. b \<noteq> PTuple xs) \<longrightarrow>
      make_response b w = make_response (PTuple [b, PNone, PNone]) w) \<and>
   make_response (PTuple [b, x]) w =
     (case x of
        PHeaders hs \<Rightarrow> make_response (PTuple [b, PNone, x]) w
      | PDict d \<Rightarrow> make_response (PTuple [b, PNone, x]) w
      | PTuple t \<Rightarrow> make_response (PTuple [b, PNone, x]) w
      | PList l \<Rightarrow> make_response (PTuple [b, PNone, x]) w
      | _ \<Rightarrow> make_response (PTuple [b, x, PNone]) w) \<and>
   (response_class (app w) = Response \<longrightarrow>
      make_response (PStr t) w =
        (Inr \<lparr>body = t, status = ''200 OK'', status_code = 200, headers = [], allow = []\<rparr>, w) \<and>
      make_response (PTuple [PStr t, PInt n]) w =
        (Inr \<lparr>body = t, status = ''200 OK'', status_code = n, headers = [], allow = []\<rparr>, w) \<and>
      make_response (PTuple [PStr t, PDict [(k, PStr v)]]) w =
        (Inr \<lparr>body = t, status = ''200 OK'', status_code = 200, headers = [(k, v)],
              allow = []\<rparr>, w) \<and>
      make_response (PTuple [PStr t, PInt n, PDict [(k, PStr v)]]) w =
        (Inr \<lparr>body = t, status = ''200 OK'', status_code = n, headers = [(k, v)],
              allow = []\<rparr>, w) \<and>
      make_response (PTuple [PResponse r', PStr l]) w = (Inr (r'\<lparr>status := l\<rparr>), w) \<and>
      make_response (PTuple [PResponse r', PInt n]) w = (Inr (r'\<lparr>status_code := n\<rparr>), w) \<and>
      make_response (PTuple [PResponse r', PHeaders hs]) w =
        (Inr (r'\<lparr>headers := headers r' @ hs\<rparr>), w) \<and>
      make_response (PTuple [PStr t, PList [PTuple [PStr k, PStr v]]]) w =
        (Inr \<lparr>body = t, status = ''200 OK'', status_code = 200, headers = [(k, v)],
              allow = []\<rparr>, w) \<and>
      make_response (PTuple [PResponse r', PStr l, PHeaders hs]) w =
        (Inr (r'\<lparr>status := l, headers := headers r' @ hs\<rparr>), w) \<and>
      make_response (PTuple [PResponse r', PInt n, PHeaders hs]) w =
        (Inr (r'\<lparr>status_code := n, headers := headers r' @ hs\<rparr>), w))"
proof -
  have pair_h: "header_like x \<Longrightarrow>
      make_response (PTuple [b, x]) w = make_response (PTuple [b, PNone, x]) w"
    by (simp add: make_response_pair_headers)
  have pair_s: "\<not> header_like x \<Longrightarrow>
      make_response (PTuple [b, x]) w = make_response (PTuple [b, x, PNone]) w"
    by (simp add: make_response_pair_status)
  have single: "\<forall>xs. b \<noteq> PTuple xs \<Longrightarrow>
      make_response b w = make_response (PTuple [b, PNone, PNone]) w"
    by (simp add: make_response_single)
  have force: "request_ctx_stack w \<noteq> [] \<and> b \<noteq> PNone \<and> \<not> is_text b \<and> (\<forall>r. b \<noteq> PResponse r) \<longrightarrow>
      make_response (PTuple [b, s, h]) w =
        (case rc_force_type (response_class (app w)) b
                (req_environ (ctx_request (last (request_ctx_stack w)))) of
           Inl e \<Rightarrow>
             (Inl (if isinstance_exn e ''TypeError'' then TypeError (invalid_type_msg e b)
                   else e), w)
         | Inr r \<Rightarrow> make_response (PTuple [PResponse r, s, h]) w)"
    using make_response_force_type [of w b s h] by blast
  have outside: "request_ctx_stack w = [] \<and> b \<noteq> PNone \<and> \<not> is_text b \<and> (\<forall>r. b \<noteq> PResponse r) \<longrightarrow>
      make_response (PTuple [b, s, h]) w = (Inl (RuntimeError request_ctx_err_msg), w)"
    using make_response_outside_request [of w b s h] by blast
  have pair: "make_response (PTuple [b, x]) w =
     (case x of
        PHeaders hs \<Rightarrow> make_response (PTuple [b, PNone, x]) w
      | PDict d \<Rightarrow> make_response (PTuple [b, PNone, x]) w
      | PTuple t \<Rightarrow> make_response (PTuple [b, PNone, x]) w
      | PList l \<Rightarrow> make_response (PTuple [b, PNone, x]) w
      | _ \<Rightarrow> make_response (PTuple [b, x, PNone]) w)"
    by (simp add: make_response_pair split: pyval.split)
  have ex_list: "response_class (app w) = Response \<Longrightarrow>
      make_response (PTuple [PStr t, PList [PTuple [PStr k, PStr v]]]) w =
        (Inr \<lparr>body = t, status = ''200 OK'', status_code = 200, headers = [(k, v)],
              allow = []\<rparr>, w)"
    by (simp add: make_response_text_triple make_response_pair_headers is_text_def
        header_like_def Response_defs)
  show ?thesis
    using pair_h pair_s single force outside pair ex_list
    by (intro conjI impI)
       (simp_all add: make_response_text_triple make_response_object_text_status
          make_response_object_other_status make_response_bad_length make_response_None
          make_response_None_pair make_response_None_triple make_response_text
          make_response_Response_examples make_response_Response_object
          make_response_object_no_status)
qed

theorem make_response_coercion_witness:
  "is_text (PStr ''ok'' :: response pyval) \<and>
   is_text (PStr ''404 NOT FOUND'' :: response pyval) \<and>
   \<not> is_text (PInt 404 :: response pyval) \<and> (PInt 404 :: response pyval) \<noteq> PNone \<and>
   header_like (PDict [(''X'', PStr ''1'')] :: response pyval) \<and>
   \<not> header_like (PInt 404 :: response pyval) \<and>
   length [PInt 1, PInt 2, PInt 3, PInt 4 :: response pyval] \<noteq> 2 \<and>
   length [PInt 1, PInt 2, PInt 3, PInt 4 :: response pyval] \<noteq> 3 \<and>
   response_class (app world1) = Response \<and>
   make_response (PStr ''ok'') world1 =
     (Inr \<lparr>body = ''ok'', status = ''200 OK'', status_code = 200, headers = [], allow = []\<rparr>,
      world1) \<and>
   make_response (PTuple [PStr ''ok'', PInt 404]) world1 =
     (Inr \<lparr>body = ''ok'', status = ''200 OK'', status_code = 404, headers = [], allow = []\<rparr>,
      world1) \<and>
   make_response (PTuple [PStr ''ok'', PDict [(''X'', PStr ''1'')]]) world1 =
     (Inr \<lparr>body = ''ok'', status = ''200 OK'', status_code = 200, headers = [(''X'', ''1'')],
           allow = []\<rparr>, world1) \<and>
   make_response (PTuple [PStr ''ok'', PInt 404, PDict [(''X'', PStr ''1'')]]) world1 =
     (Inr \<lparr>body = ''ok'', status = ''200 OK'', status_code = 404, headers = [(''X'', ''1'')],
           allow = []\<rparr>, world1) \<and>
   make_response (PTuple [PInt 1, PInt 2, PInt 3, PInt 4]) world1 =
     (Inl (TypeError invalid_tuple_msg), world1) \<and>
   make_response PNone world1 = (Inl (TypeError none_body_msg), world1) \<and>
   make_response (PTuple [PResponse response0, PStr ''404 NOT FOUND'',
                          PDict [(''X'', PStr ''1'')]]) world1 =
     (Inr (response0\<lparr>status := ''404 NOT FOUND'',
                      headers := [(''Content-Type'', ''text/html''), (''X'', ''1'')]\<rparr>), world1) \<and>
   make_response (PTuple [PResponse response0, PInt 404, PDict [(''X'', PStr ''1'')]]) world1 =
     (Inr (response0\<lparr>status_code := 404,
                      headers := [(''Content-Type'', ''text/html''), (''X'', ''1'')]\<rparr>), world1) \<and>
   request_ctx_stack world1 \<noteq> [] \<and> request_ctx_stack world0 = [] \<and>
   make_response (PTuple [PStr ''ok'', PList [PTuple [PStr ''X'', PStr ''1'']]]) world1 =
     (Inr \<lparr>body = ''ok'', status = ''200 OK'', status_code = 200, headers = [(''X'', ''1'')],
           allow = []\<rparr>, world1) \<and>
   make_response (PTuple [PExc InternalServerError, PInt 503, PDict [(''X'', PStr ''1'')]])
       world1 =
     (Inr \<lparr>body = [], status = [], status_code = 503, headers = [(''X'', ''1'')],
           allow = []\<rparr>, world1) \<and>
   make_response (PObject ''Thing'') world1 =
     (Inl (TypeError (invalid_type_msg (TypeError ''object is not callable'')
        (PObject ''Thing'' :: response pyval))), world1) \<and>
   make_response (PObject ''Thing'') world0 = (Inl (RuntimeError request_ctx_err_msg), world0)"
proof -
  note a = make_response_coercion [where w = world1 and b = "PStr ''ok''"
      and s = "PStr ''404 NOT FOUND''" and h = "PDict [(''X'', PStr ''1'')]"
      and x = "PDict [(''X'', PStr ''1'')]" and r = response0
      and xs = "[PInt 1, PInt 2, PInt 3, PInt 4]" and t = "''ok''" and n = 404
      and k = "''X''" and v = "''1''"]
  note b = make_response_coercion [where w = world1 and b = "PStr ''ok''"
      and s = "PInt 404" and h = "PDict [(''X'', PStr ''1'')]"
      and x = "PInt 404" and r = response0]
  note c = make_response_coercion [where w = world1 and b = "PExc InternalServerError"
      and s = "PInt 503" and h = "PDict [(''X'', PStr ''1'')]"
      and r = "\<lparr>body = [], status = [], status_code = 500, headers = [], allow = []\<rparr>"]
  note d = make_response_coercion [where w = world1 and b = "PObject ''Thing''"
      and s = PNone and h = PNone]
  note e = make_response_coercion [where w = world0 and b = "PObject ''Thing''"
      and s = PNone and h = PNone]
  have old: "is_text (PStr ''ok'' :: response pyval) \<and>
   is_text (PStr ''404 NOT FOUND'' :: response pyval) \<and>
   \<not> is_text (PInt 404 :: response pyval) \<and> (PInt 404 :: response pyval) \<noteq> PNone \<and>
   header_like (PDict [(''X'', PStr ''1'')] :: response pyval) \<and>
   \<not> header_like (PInt 404 :: response pyval) \<and>
   length [PInt 1, PInt 2, PInt 3, PInt 4 :: response pyval] \<noteq> 2 \<and>
   length [PInt 1, PInt 2, PInt 3, PInt 4 :: response pyval] \<noteq> 3 \<and>
   response_class (app world1) = Response \<and>
   make_response (PStr ''ok'') world1 =
     (Inr \<lparr>body = ''ok'', status = ''200 OK'', status_code = 200, headers = [], allow = []\<rparr>,
      world1) \<and>
   make_response (PTuple [PStr ''ok'', PInt 404]) world1 =
     (Inr \<lparr>body = ''ok'', status = ''200 OK'', status_code = 404, headers = [], allow = []\<rparr>,
      world1) \<and>
   make_response (PTuple [PStr ''ok'', PDict [(''X'', PStr ''1'')]]) world1 =
     (Inr \<lparr>body = ''ok'', status = ''200 OK'', status_code = 200, headers = [(''X'', ''1'')],
           allow = []\<rparr>, world1) \<and>
   make_response (PTuple [PStr ''ok'', PInt 404, PDict [(''X'', PStr ''1'')]]) world1 =
     (Inr \<lparr>body = ''ok'', status = ''200 OK'', status_code = 404, headers = [(''X'', ''1'')],
           allow = []\<rparr>, world1) \<and>
   make_response (PTuple [PInt 1, PInt 2, PInt 3, PInt 4]) world1 =
     (Inl (TypeError invalid_tuple_msg), world1) \<and>
   make_response PNone world1 = (Inl (TypeError none_body_msg), world1) \<and>
   make_response (PTuple [PResponse response0, PStr ''404 NOT FOUND'',
                          PDict [(''X'', PStr ''1'')]]) world1 =
     (Inr (response0\<lparr>status := ''404 NOT FOUND'',
                      headers := [(''Content-Type'', ''text/html''), (''X'', ''1'')]\<rparr>), world1) \<and>
   make_response (PTuple [PResponse response0, PInt 404, PDict [(''X'', PStr ''1'')]]) world1 =
     (Inr (response0\<lparr>status_code := 404,
                      headers := [(''Content-Type'', ''text/html''), (''X'', ''1'')]\<rparr>), world1)"
    using a b
    by (simp add: is_text_def header_like_def truthy_def world1_def world0_def app0_def
        response0_def Response_defs)
  have R: "response_class (app world1) = Response"
    by (simp add: world1_def world0_def app0_def)
  have s1: "request_ctx_stack world1 \<noteq> []"
    by (simp add: world1_def)
  have s0: "request_ctx_stack world0 = []"
    by (simp add: world0_def)
  have lst: "make_response (PTuple [PStr ''ok'', PList [PTuple [PStr ''X'', PStr ''1'']]]) world1 =
     (Inr \<lparr>body = ''ok'', status = ''200 OK'', status_code = 200, headers = [(''X'', ''1'')],
           allow = []\<rparr>, world1)"
    using a R by simp
  have ft: "rc_force_type (response_class (app world1)) (PExc InternalServerError)
      (req_environ (ctx_request (last (request_ctx_stack world1)))) =
      Inr \<lparr>body = [], status = [], status_code = 500, headers = [], allow = []\<rparr>"
    by (simp add: R Response_def InternalServerError_def)
  have c1: "make_response (PTuple [PExc InternalServerError, PInt 503,
        PDict [(''X'', PStr ''1'')]]) world1 =
      make_response (PTuple [PResponse \<lparr>body = [], status = [], status_code = 500,
        headers = [], allow = []\<rparr>, PInt 503, PDict [(''X'', PStr ''1'')]]) world1"
    using c s1 by (simp add: is_text_def ft)
  have c2: "make_response (PTuple [PResponse \<lparr>body = [], status = [], status_code = 500,
        headers = [], allow = []\<rparr>, PInt 503, PDict [(''X'', PStr ''1'')]]) world1 =
      (Inr \<lparr>body = [], status = [], status_code = 503, headers = [(''X'', ''1'')],
            allow = []\<rparr>, world1)"
    using c by (simp add: is_text_def truthy_def R Response_defs)
  have fo: "rc_force_type (response_class (app world1)) (PObject ''Thing'')
      (req_environ (ctx_request (last (request_ctx_stack world1)))) =
      Inl (TypeError ''object is not callable'')"
    by (simp add: R Response_def)
  have it: "isinstance_exn (TypeError ''object is not callable'') ''TypeError''"
    by (simp add: TypeError_def isinstance_exn_def)
  have d1: "make_response (PObject ''Thing'') world1 =
      (Inl (TypeError (invalid_type_msg (TypeError ''object is not callable'')
         (PObject ''Thing'' :: response pyval))), world1)"
    using d s1 it by (simp add: is_text_def fo)
  have e1: "make_response (PObject ''Thing'') world0 =
      (Inl (RuntimeError request_ctx_err_msg), world0)"
    using e s0 by (simp add: is_text_def)
  show ?thesis
    using old s1 s0 lst c1 c2 d1 e1 by simp
qed

section \<open>Error handler lookup\<close>

lemma mro_lookup_search_bucket: "mro_lookup hm mro = search_bucket hm mro"
  by (induction mro) (auto simp: search_bucket_def split: option.splits)

lemma mro_lookup_Nil [simp]: "mro_lookup [] mro = None"
  by (induction mro) auto

lemma map_of_setdefault:
  "map_of (setdefault k v d) k' =
     (if k' = k \<and> map_of d k = None then Some v else map_of d k')"
  by (auto simp: setdefault_def map_add_def split: option.splits)

lemma bucket_setdefault [simp]: "bucket (setdefault k [] spec) name c = bucket spec name c"
  by (simp add: bucket_def map_of_setdefault)

lemma setdefault_idem [simp]: "map_of (setdefault k v d) k \<noteq> None"
  by (simp add: map_of_setdefault)

lemma find_error_handler_loop_step:
  "find_error_handler_loop ((name, c) # rest) mro spec =
     (case mro_lookup (bucket spec name c) mro of
        Some handler \<Rightarrow> (Some handler, setdefault name [] spec)
      | None \<Rightarrow> find_error_handler_loop rest mro (setdefault name [] spec))"
  by (auto simp: Let_def bucket_def map_of_setdefault split: option.splits)

declare find_error_handler_loop.simps(2) [simp del]

lemma find_error_handler_loop_bucket:
  "bucket (snd (find_error_handler_loop keys mro spec)) name c = bucket spec name c"
proof (induction keys arbitrary: spec)
  case Nil
  then show ?case by simp
next
  case (Cons k keys)
  obtain n c' where k: "k = (n, c')" by (cases k)
  show ?case
    unfolding k find_error_handler_loop_step
    by (cases "mro_lookup (bucket spec n c') mro") (simp_all add: Cons.IH)
qed

lemma find_error_handler_loop_result:
  "fst (find_error_handler_loop keys mro spec) =
     first_handler (map (\<lambda>(name, c). search_bucket (bucket spec name c) mro) keys)"
proof (induction keys arbitrary: spec)
  case Nil
  then show ?case by (simp add: first_handler_def)
next
  case (Cons k keys)
  obtain n c' where k: "k = (n, c')" by (cases k)
  show ?case
    unfolding k find_error_handler_loop_step
    by (cases "mro_lookup (bucket spec n c') mro")
       (simp_all add: Cons.IH first_handler_def mro_lookup_search_bucket [symmetric])
qed

lemma find_error_handler_run:
  assumes "isinstance_exn e ''Exception''" and "request_ctx_stack w \<noteq> []"
  shows "find_error_handler e w =
     (Inr (fst (find_error_handler_loop
            [(req_blueprint (ctx_request (last (request_ctx_stack w))), status_code_of e),
             (None, status_code_of e),
             (req_blueprint (ctx_request (last (request_ctx_stack w))), None), (None, None)]
            (exc_mro e) (error_handler_spec (app w)))),
      w\<lparr>app := (app w)\<lparr>error_handler_spec :=
           snd (find_error_handler_loop
            [(req_blueprint (ctx_request (last (request_ctx_stack w))), status_code_of e),
             (None, status_code_of e),
             (req_blueprint (ctx_request (last (request_ctx_stack w))), None), (None, None)]
            (exc_mro e) (error_handler_spec (app w)))\<rparr>\<rparr>)"
  using assms
  by (simp add: find_error_handler_def get_exc_class_and_code_def status_code_of_def
      request_proxy_def lookup_req_object_top bind_def lift_def split: prod.splits)

lemma search_bucket_head:
  "map_of hm cls = Some h \<Longrightarrow> search_bucket hm (cls # rest) = Some h"
  by (simp add: search_bucket_def)

lemma trap_http_exception_off:
  "\<not> TRAP_HTTP_EXCEPTIONS (app w) \<Longrightarrow> \<not> isinstance_exn e ''BadRequest'' \<Longrightarrow>
   \<not> isinstance_exn e ''BadRequestKeyError'' \<Longrightarrow>
   trap_http_exception e w = (Inr False, w)"
  by (simp add: trap_http_exception_def prog_defs)

lemma handle_http_exception_run:
  "exc_code e \<noteq> None \<Longrightarrow>
   handle_http_exception e w =
     (case find_error_handler e w of
        (Inl x, w') \<Rightarrow> (Inl x, w')
      | (Inr None, w') \<Rightarrow> (Inr (PExc e), w')
      | (Inr (Some h), w') \<Rightarrow> call ErrorHandler h [PExc e] w')"
  by (cases "exc_code e")
     (simp_all add: handle_http_exception_def bind_def return_def
        split: prod.split sum.split option.split)

lemma handle_http_exception_unhandled:
  assumes "isinstance_exn e ''Exception''" and "request_ctx_stack w \<noteq> []"
    and "spec_find_error_handler (error_handler_spec (app w))
           (req_blueprint (ctx_request (last (request_ctx_stack w)))) e = None"
  shows "fst (handle_http_exception e w) = Inr (PExc e) \<and>
         trace (snd (handle_http_exception e w)) = trace w \<and>
         user (snd (handle_http_exception e w)) = user w \<and>
         request_ctx_stack (snd (handle_http_exception e w)) = request_ctx_stack w \<and>
         app_ctx_stack (snd (handle_http_exception e w)) = app_ctx_stack w"
proof (cases "exc_code e")
  case None
  then show ?thesis
    by (simp add: handle_http_exception_def return_def)
next
  case (Some c)
  have "fst (find_error_handler_loop
      [(req_blueprint (ctx_request (last (request_ctx_stack w))), status_code_of e),
       (None, status_code_of e),
       (req_blueprint (ctx_request (last (request_ctx_stack w))), None), (None, None)]
      (exc_mro e) (error_handler_spec (app w))) = None"
    using assms(3) by (simp add: find_error_handler_loop_result spec_find_error_handler_def)
  then show ?thesis
    using Some
    by (simp add: handle_http_exception_def bind_def find_error_handler_run [OF assms(1,2)]
        return_def)
qed

lemma handle_user_exception_untrapped:
  assumes "isinstance_exn e ''HTTPException''" and "\<not> TRAP_HTTP_EXCEPTIONS (app w)"
    and "\<not> isinstance_exn e ''BadRequest''" and "\<not> isinstance_exn e ''BadRequestKeyError''"
  shows "handle_user_exception e w = handle_http_exception e w"
  using assms
  by (simp add: handle_user_exception_def bind_def gets_def return_def
      trap_http_exception_off)

section \<open>Routing failures\<close>

lemma mangle_debughelpers: "mangle ''Flask'' ''__debughelpers'' = ''_Flask__debughelpers''"
  by (simp add: mangle_def)

lemma import_debughelpers:
  "import_from ''Flask'' ''__debughelpers'' w =
     (Inl (ModuleNotFoundError ''_Flask__debughelpers''), w)"
  by (simp add: import_from_def mangle_debughelpers modules_def raise_def)

lemma raise_routing_exception_run:
  "req_routing_exception req = Some e \<Longrightarrow>
   raise_routing_exception req w =
     (if \<not> debug (app w) \<or> \<not> isinstance_exn e ''RequestRedirect''
         \<or> req_method req \<in> {''GET'', ''HEAD'', ''OPTIONS''}
      then (Inl e, w) else (Inl (ModuleNotFoundError ''_Flask__debughelpers''), w))"
  by (simp add: raise_routing_exception_def prog_defs import_debughelpers)

lemma dispatch_request_routing_exception:
  "request_ctx_stack w \<noteq> [] \<Longrightarrow>
   req_routing_exception (ctx_request (last (request_ctx_stack w))) = Some e \<Longrightarrow>
   dispatch_request w = raise_routing_exception (ctx_request (last (request_ctx_stack w))) w"
  by (simp add: dispatch_request_def bind_def request_ctx_top_run raise_routing_exception_run)

lemma ModuleNotFoundError_classes:
  "\<not> isinstance_exn (ModuleNotFoundError n) ''FormDataRoutingRedirect''"
  "\<not> isinstance_exn (ModuleNotFoundError n) ''RequestRedirect''"
  "\<not> isinstance_exn (ModuleNotFoundError n) ''AssertionError''"
  "isinstance_exn (ModuleNotFoundError n) ''ImportError''"
  by (simp_all add: ModuleNotFoundError_def isinstance_exn_def)

lemma make_response_exception_Response:
  assumes "response_class (app v) = Response" and "request_ctx_stack v \<noteq> []"
    and "exc_code e = Some c"
  shows "make_response (PExc e) v =
     (Inr \<lparr>body = exc_msg e, status = [], status_code = c, headers = [], allow = []\<rparr>, v)"
proof -
  have "make_response (PExc e) v = make_response (PTuple [PExc e, PNone, PNone]) v"
    by (simp add: make_response_single)
  also have "\<dots> = make_response (PTuple [PResponse \<lparr>body = exc_msg e, status = [],
      status_code = c, headers = [], allow = []\<rparr>, PNone, PNone]) v"
    using assms by (simp add: make_response_force_type is_text_def Response_def)
  also have "\<dots> = (Inr \<lparr>body = exc_msg e, status = [], status_code = c, headers = [],
      allow = []\<rparr>, v)"
    by (simp add: make_response_object_no_status truthy_def)
  finally show ?thesis .
qed

lemma process_response_plain:
  assumes "request_ctx_stack v \<noteq> []"
    and "ctx_after_request_functions (last (request_ctx_stack v)) = []"
    and "after_request_funcs (app v) = []"
    and "is_null_session (session_interface (app v)) (ctx_session (last (request_ctx_stack v)))"
  shows "process_response r v = (Inr r, v)"
  using assms
  by (simp add: process_response_def bind_def request_ctx_top_run gets_def return_def
      get_funcs_def blueprint_funcs_def split: option.split)

lemma finalize_request_exception_Response:
  assumes "response_class (app v) = Response" and "request_ctx_stack v \<noteq> []"
    and "exc_code e = Some c"
    and "ctx_after_request_functions (last (request_ctx_stack v)) = []"
    and "after_request_funcs (app v) = []"
    and "is_null_session (session_interface (app v)) (ctx_session (last (request_ctx_stack v)))"
  shows "finalize_request (PExc e) False v =
     (Inr (PResponse \<lparr>body = exc_msg e, status = [], status_code = c, headers = [],
                      allow = []\<rparr>),
      v\<lparr>trace := trace v @
         [Signal ''request-finished''
            [PResponse \<lparr>body = exc_msg e, status = [], status_code = c, headers = [],
                        allow = []\<rparr>]]\<rparr>)"
  by (simp add: finalize_request_run make_response_exception_Response [OF assms(1,2,3)]
      process_response_plain [OF assms(2,4,5,6)])

text \<open>
  Claim C6. The routing outcome of the current request is a redirect suggestion \<open>e\<close>.
  For the methods \<open>GET\<close>, \<open>HEAD\<close> and \<open>OPTIONS\<close>, and for every method when debug mode
  is off, \<open>dispatch_request\<close> raises \<open>e\<close> itself and changes nothing; when HTTP
  exceptions are not trapped and no error handler is registered for \<open>e\<close>,
  \<open>handle_user_exception\<close> returns \<open>e\<close> as the value of the view and
  \<open>full_dispatch_request\<close> finalizes it, so that the response is made from the redirect.
  In debug mode and for any other method (\<open>POST\<close> among them) \<open>dispatch_request\<close> does
  not raise the diagnostic \<open>FormDataRoutingRedirect\<close>: the statement that imports it,
  written inside the class \<open>Flask\<close>, asks for the module \<open>_Flask__debughelpers\<close>,
  which does not exist, and the \<open>ModuleNotFoundError\<close> of the import is what leaves
  \<open>dispatch_request\<close>.
\<close>

theorem dispatch_request_redirect:
  assumes "request_ctx_stack w \<noteq> []"
    and "req = ctx_request (last (request_ctx_stack w))"
    and "req_routing_exception req = Some e"
    and "isinstance_exn e ''RequestRedirect''"
  shows "(req_method req \<in> {''GET'', ''HEAD'', ''OPTIONS''} \<or> \<not> debug (app w) \<longrightarrow>
            dispatch_request w = (Inl e, w)) \<and>
         (debug (app w) \<and> req_method req \<notin> {''GET'', ''HEAD'', ''OPTIONS''} \<longrightarrow>
            dispatch_request w = (Inl (ModuleNotFoundError ''_Flask__debughelpers''), w) \<and>
            \<not> isinstance_exn (ModuleNotFoundError ''_Flask__debughelpers'')
                ''FormDataRoutingRedirect'' \<and>
            ModuleNotFoundError ''_Flask__debughelpers'' \<noteq> FormDataRoutingRedirect req \<and>
            ModuleNotFoundError ''_Flask__debughelpers'' \<noteq> e) \<and>
         ((req_method req \<in> {''GET'', ''HEAD'', ''OPTIONS''} \<or> \<not> debug (app w)) \<and>
          isinstance_exn e ''Exception'' \<and> isinstance_exn e ''HTTPException'' \<and>
          \<not> TRAP_HTTP_EXCEPTIONS (app w) \<and> \<not> isinstance_exn e ''BadRequest'' \<and>
          \<not> isinstance_exn e ''BadRequestKeyError'' \<and>
          spec_find_error_handler (error_handler_spec (app w)) (req_blueprint req) e = None \<longrightarrow>
            fst (handle_user_exception e w) = Inr (PExc e) \<and>
            trace (snd (handle_user_exception e w)) = trace w \<and>
            (\<forall>w' w0. try_trigger_before_first_request_functions w' = (Inr (), w0) \<and>
               preprocess_request (w0\<lparr>trace := trace w0 @ [Signal ''request-started'' []]\<rparr>) =
                 (Inr PNone, w) \<longrightarrow>
               full_dispatch_request w' =
                 finalize_request (PExc e) False (snd (handle_user_exception e w))))"
proof -
  let ?m = "ModuleNotFoundError ''_Flask__debughelpers''"
  have d: "dispatch_request w = raise_routing_exception req w"
    using assms(1,2,3) by (simp add: dispatch_request_routing_exception)
  have n: "\<not> isinstance_exn ?m ''FormDataRoutingRedirect''"
    by (rule ModuleNotFoundError_classes)
  have "isinstance_exn (FormDataRoutingRedirect req) ''FormDataRoutingRedirect''"
    by (simp add: FormDataRoutingRedirect_def isinstance_exn_def)
  then have ne1: "?m \<noteq> FormDataRoutingRedirect req"
    using n by auto
  have ne2: "?m \<noteq> e"
    using ModuleNotFoundError_classes(2) assms(4) by auto
  have safe: "dispatch_request w = (Inl e, w)"
    if "req_method req \<in> {''GET'', ''HEAD'', ''OPTIONS''} \<or> \<not> debug (app w)"
    using that by (auto simp: d raise_routing_exception_run [OF assms(3)])
  have unsafe: "dispatch_request w = (Inl ?m, w)"
    if "debug (app w) \<and> req_method req \<notin> {''GET'', ''HEAD'', ''OPTIONS''}"
    using that assms(4) by (auto simp: d raise_routing_exception_run [OF assms(3)])
  have resp: "fst (handle_user_exception e w) = Inr (PExc e) \<and>
      trace (snd (handle_user_exception e w)) = trace w \<and>
      (\<forall>w' w0. try_trigger_before_first_request_functions w' = (Inr (), w0) \<and>
         preprocess_request (w0\<lparr>trace := trace w0 @ [Signal ''request-started'' []]\<rparr>) =
           (Inr PNone, w) \<longrightarrow>
         full_dispatch_request w' =
           finalize_request (PExc e) False (snd (handle_user_exception e w)))"
    if h: "req_method req \<in> {''GET'', ''HEAD'', ''OPTIONS''} \<or> \<not> debug (app w)"
      "isinstance_exn e ''Exception''" "isinstance_exn e ''HTTPException''"
      "\<not> TRAP_HTTP_EXCEPTIONS (app w)" "\<not> isinstance_exn e ''BadRequest''"
      "\<not> isinstance_exn e ''BadRequestKeyError''"
      "spec_find_error_handler (error_handler_spec (app w)) (req_blueprint req) e = None"
  proof -
    have u: "handle_user_exception e w = handle_http_exception e w"
      using h(3,4,5,6) by (rule handle_user_exception_untrapped)
    have v: "fst (handle_http_exception e w) = Inr (PExc e) \<and>
        trace (snd (handle_http_exception e w)) = trace w"
      using handle_http_exception_unhandled [OF h(2) assms(1)] h(7) assms(2) by simp
    have f: "full_dispatch_request w' =
        finalize_request (PExc e) False (snd (handle_user_exception e w))"
      if t: "try_trigger_before_first_request_functions w' = (Inr (), w0)"
        "preprocess_request (w0\<lparr>trace := trace w0 @ [Signal ''request-started'' []]\<rparr>) =
           (Inr PNone, w)" for w' w0
    proof -
      have "full_dispatch_request w' =
          bind (handle_user_exception e) (\<lambda>rv. finalize_request rv False) w"
        unfolding full_dispatch_request_run [OF t(1)] t(2)
        by (simp add: safe [OF h(1)] h(2))
      also have "\<dots> = finalize_request (PExc e) False (snd (handle_user_exception e w))"
        using v by (cases "handle_http_exception e w") (simp add: bind_def u)
      finally show ?thesis .
    qed
    show ?thesis
      using v f unfolding u by blast
  qed
  show ?thesis
    using safe unsafe n ne1 ne2 resp by blast
qed

theorem dispatch_request_redirect_witness:
  "dispatch_request (world_redirect ''GET'' False) =
     (Inl redirect0, world_redirect ''GET'' False) \<and>
   dispatch_request (world_redirect ''POST'' False) =
     (Inl redirect0, world_redirect ''POST'' False) \<and>
   dispatch_request (world_redirect ''GET'' True) =
     (Inl redirect0, world_redirect ''GET'' True) \<and>
   dispatch_request (world_redirect ''POST'' True) =
     (Inl (ModuleNotFoundError ''_Flask__debughelpers''), world_redirect ''POST'' True) \<and>
   ModuleNotFoundError ''_Flask__debughelpers'' \<noteq>
     FormDataRoutingRedirect (request_redirect ''POST'' :: response request) \<and>
   fst (full_dispatch_request (world_redirect ''GET'' False)) =
     Inr (PResponse \<lparr>body = ''/users/'', status = [], status_code = 308, headers = [],
                     allow = []\<rparr>) \<and>
   trace (snd (full_dispatch_request (world_redirect ''GET'' False))) =
     [Signal ''request-started'' [],
      Signal ''request-finished''
        [PResponse \<lparr>body = ''/users/'', status = [], status_code = 308, headers = [],
                    allow = []\<rparr>]]"
proof -
  let ?Win = "world_redirect ''GET'' False"
  let ?Wtrig = "?Win\<lparr>app := (app ?Win)\<lparr>got_first_request := True\<rparr>\<rparr>"
  let ?Wstart = "?Wtrig\<lparr>trace := trace ?Wtrig @ [Signal ''request-started'' []]\<rparr>"
  let ?r = "\<lparr>body = ''/users/'', status = [], status_code = 308, headers = [], allow = []\<rparr>"
  have s: "request_ctx_stack (world_redirect m dbg) \<noteq> []" for m dbg
    by (simp add: world_redirect_def)
  have r: "request_redirect m = ctx_request (last (request_ctx_stack (world_redirect m dbg)))"
    for m dbg
    by (simp add: world_redirect_def)
  have x: "req_routing_exception (request_redirect m) = Some redirect0" for m
    by (simp add: request_redirect_def)
  have i: "isinstance_exn redirect0 ''RequestRedirect''"
    by (simp add: redirect0_def isinstance_exn_def)
  have m: "req_method (request_redirect m) = m" for m
    by (simp add: request_redirect_def)
  have d: "debug (app (world_redirect m dbg)) = dbg" for m dbg
    by (simp add: world_redirect_def)
  have four: "dispatch_request (world_redirect ''GET'' False) =
       (Inl redirect0, world_redirect ''GET'' False) \<and>
     dispatch_request (world_redirect ''POST'' False) =
       (Inl redirect0, world_redirect ''POST'' False) \<and>
     dispatch_request (world_redirect ''GET'' True) =
       (Inl redirect0, world_redirect ''GET'' True) \<and>
     dispatch_request (world_redirect ''POST'' True) =
       (Inl (ModuleNotFoundError ''_Flask__debughelpers''), world_redirect ''POST'' True) \<and>
     ModuleNotFoundError ''_Flask__debughelpers'' \<noteq>
       FormDataRoutingRedirect (request_redirect ''POST'' :: response request)"
    using dispatch_request_redirect [OF s r x i, of "''GET''" False]
      dispatch_request_redirect [OF s r x i, of "''POST''" False]
      dispatch_request_redirect [OF s r x i, of "''GET''" True]
      dispatch_request_redirect [OF s r x i, of "''POST''" True]
    by (simp add: m d)
  have ss: "request_ctx_stack ?Wstart \<noteq> []"
    by (simp add: world_redirect_def)
  have rs: "request_redirect ''GET'' = ctx_request (last (request_ctx_stack ?Wstart))"
    by (simp add: world_redirect_def)
  have t: "try_trigger_before_first_request_functions ?Win = (Inr (), ?Wtrig)"
    by (simp add: try_trigger_before_first_request_functions_def bind_def gets_def return_def
        modify_def world_redirect_def world0_def app0_def)
  have p: "preprocess_request ?Wstart = (Inr PNone, ?Wstart)"
    unfolding preprocess_request_run [OF ss]
    by (simp add: world_redirect_def world0_def app0_def get_funcs_def blueprint_funcs_def
        return_def request_redirect_def request0_def)
  have cls: "isinstance_exn redirect0 ''Exception''" "isinstance_exn redirect0 ''HTTPException''"
    "\<not> isinstance_exn redirect0 ''BadRequest''" "\<not> isinstance_exn redirect0 ''BadRequestKeyError''"
    by (simp_all add: redirect0_def isinstance_exn_def)
  have cfg: "\<not> TRAP_HTTP_EXCEPTIONS (app ?Wstart)" "\<not> debug (app ?Wstart)"
    by (simp_all add: world_redirect_def world0_def app0_def)
  have none: "spec_find_error_handler (error_handler_spec (app ?Wstart))
      (req_blueprint (request_redirect ''GET'')) redirect0 = None"
    by (simp add: world_redirect_def world0_def app0_def spec_find_error_handler_def
        bucket_def search_bucket_def first_handler_def redirect0_def)
  note c = dispatch_request_redirect [OF ss rs x i]
  have h: "fst (handle_user_exception redirect0 ?Wstart) = Inr (PExc redirect0)"
    "trace (snd (handle_user_exception redirect0 ?Wstart)) = trace ?Wstart"
    using c cls cfg none by blast+
  have f: "full_dispatch_request ?Win =
      finalize_request (PExc redirect0) False (snd (handle_user_exception redirect0 ?Wstart))"
    using c cls cfg none t p by blast
  let ?Wdone = "?Wstart\<lparr>app := (app ?Wstart)\<lparr>error_handler_spec := [(None, [])]\<rparr>\<rparr>"
  have fe: "find_error_handler redirect0 ?Wstart = (Inr None, ?Wdone)"
    unfolding find_error_handler_run [OF cls(1) ss]
    by (simp add: find_error_handler_loop_step bucket_def setdefault_def redirect0_def
        world_redirect_def request_redirect_def request0_def world0_def app0_def
        status_code_of_def isinstance_exn_def)
  have code: "exc_code redirect0 \<noteq> None"
    by (simp add: redirect0_def)
  have hue: "handle_user_exception redirect0 ?Wstart = (Inr (PExc redirect0), ?Wdone)"
    unfolding handle_user_exception_untrapped [OF cls(2) cfg(1) cls(3,4)]
      handle_http_exception_run [OF code] fe
    by simp
  have full: "full_dispatch_request ?Win = finalize_request (PExc redirect0) False ?Wdone"
    using f unfolding hue by simp
  have c2: "exc_code redirect0 = Some 308" "exc_msg redirect0 = ''/users/''"
    by (simp_all add: redirect0_def)
  have w2: "response_class (app ?Wdone) = Response" "request_ctx_stack ?Wdone \<noteq> []"
    "ctx_after_request_functions (last (request_ctx_stack ?Wdone)) = []"
    "after_request_funcs (app ?Wdone) = []"
    "is_null_session (session_interface (app ?Wdone)) (ctx_session (last (request_ctx_stack ?Wdone)))"
    by (simp_all add: world_redirect_def world0_def app0_def ctx0_def)
  have tr: "trace ?Wdone = [Signal ''request-started'' []]"
    by (simp add: world_redirect_def world0_def)
  have res: "fst (full_dispatch_request ?Win) = Inr (PResponse ?r)"
    "trace (snd (full_dispatch_request ?Win)) =
       [Signal ''request-started'' [], Signal ''request-finished'' [PResponse ?r]]"
    unfolding full finalize_request_exception_Response [OF w2(1,2) c2(1) w2(3,4,5)] c2(2)
    using tr by simp_all
  show ?thesis
    using four res by simp
qed

section \<open>Finalization\<close>

text \<open>
  Claim C8, as the code has it. An exception raised by \<open>make_response\<close> leaves
  \<open>finalize_request\<close> whether or not \<open>from_error_handler\<close> is set. An exception (a
  subclass of \<open>Exception\<close>) raised by \<open>process_response\<close>, that is by an after-request
  function or by saving the session, is logged and swallowed when \<open>from_error_handler\<close> is
  set, and the response made by \<open>make_response\<close> is returned; when the flag is not set
  the same exception leaves \<open>finalize_request\<close>. When nothing is raised the processed
  response is returned after the signal \<open>request-finished\<close>.
\<close>

theorem finalize_request_errors:
  "(make_response rv w = (Inl e, w1) \<longrightarrow>
      finalize_request rv True w = (Inl e, w1) \<and>
      finalize_request rv False w = (Inl e, w1)) \<and>
   (make_response rv w = (Inr response, w1) \<and>
    process_response (PResponse response) w1 = (Inl e, w2) \<and>
    isinstance_exn e ''Exception'' \<longrightarrow>
      finalize_request rv True w =
        (Inr (PResponse response), w2\<lparr>trace := trace w2 @ [Logged finalizing_failed_msg]\<rparr>) \<and>
      finalize_request rv False w = (Inl e, w2)) \<and>
   (make_response rv w = (Inr response, w1) \<and>
    process_response (PResponse response) w1 = (Inr response', w2) \<longrightarrow>
      finalize_request rv from_error_handler w =
        (Inr response', w2\<lparr>trace := trace w2 @ [Signal ''request-finished'' [response']]\<rparr>))"
  by (simp add: finalize_request_run)

theorem finalize_request_errors_witness:
  "make_response PNone world_after = (Inl (TypeError none_body_msg), world_after) \<and>
   finalize_request PNone False world_after = (Inl (TypeError none_body_msg), world_after) \<and>
   make_response (PStr ''ok'') world_after = (Inr response_ok, world_after) \<and>
   process_response (PResponse response_ok) world_after =
     (Inl (ValueError ''boom''),
      world_after\<lparr>user := 1,
                  trace := [Called AfterRequest ''add_header'' [PResponse response_ok]]\<rparr>) \<and>
   isinstance_exn (ValueError ''boom'') ''Exception'' \<and>
   finalize_request (PStr ''ok'') True world_after =
     (Inr (PResponse response_ok),
      world_after\<lparr>user := 1,
                  trace := [Called AfterRequest ''add_header'' [PResponse response_ok],
                            Logged finalizing_failed_msg]\<rparr>) \<and>
   finalize_request (PStr ''ok'') False world_after =
     (Inl (ValueError ''boom''),
      world_after\<lparr>user := 1,
                  trace := [Called AfterRequest ''add_header'' [PResponse response_ok]]\<rparr>) \<and>
   process_response (PResponse response_ok) world1 = (Inr (PResponse response_ok), world1) \<and>
   finalize_request (PStr ''ok'') True world1 =
     (Inr (PResponse response_ok),
      world1\<lparr>trace := [Signal ''request-finished'' [PResponse response_ok]]\<rparr>)"
proof -
  let ?w2 = "world_after\<lparr>user := 1,
      trace := [Called AfterRequest ''add_header'' [PResponse response_ok]]\<rparr>"
  have a: "make_response PNone world_after = (Inl (TypeError none_body_msg), world_after)"
    by (simp add: make_response_None)
  have b: "make_response (PStr ''ok'') world_after = (Inr response_ok, world_after)"
    by (simp add: make_response_text is_text_def world_after_def world1_def world0_def
        app0_def Response_defs response_ok_def)
  have b1: "make_response (PStr ''ok'') world1 = (Inr response_ok, world1)"
    by (simp add: make_response_text is_text_def world1_def world0_def
        app0_def Response_defs response_ok_def)
  have s: "request_ctx_stack world_after \<noteq> []" "request_ctx_stack world1 \<noteq> []"
    by (simp_all add: world_after_def world1_def)
  have c: "process_response (PResponse response_ok) world_after = (Inl (ValueError ''boom''), ?w2)"
    by (simp add: process_response_def bind_def request_ctx_top_run s)
       (simp add: world_after_def world1_def world0_def app0_def ctx0_def request0_def
          get_funcs_def blueprint_funcs_def call_def raising_callback_def prog_defs)
  have c1: "process_response (PResponse response_ok) world1 =
      (Inr (PResponse response_ok), world1)"
    by (simp add: process_response_def bind_def request_ctx_top_run s)
       (simp add: world1_def world0_def app0_def ctx0_def request0_def
          get_funcs_def blueprint_funcs_def prog_defs)
  have i: "isinstance_exn (ValueError ''boom'') ''Exception''"
    by (simp add: ValueError_def isinstance_exn_def)
  have tr: "trace world1 = []"
    by (simp add: world1_def world0_def)
  note t1 = finalize_request_errors [where rv = PNone and w = world_after
      and e = "TypeError none_body_msg" and ?w1.0 = world_after]
  note t2 = finalize_request_errors [where rv = "PStr ''ok''" and w = world_after
      and e = "ValueError ''boom''" and ?w1.0 = world_after and response = response_ok
      and ?w2.0 = ?w2]
  note t3 = finalize_request_errors [where rv = "PStr ''ok''" and w = world1
      and ?w1.0 = world1 and response = response_ok and response' = "PResponse response_ok"
      and ?w2.0 = world1 and from_error_handler = True]
  show ?thesis
    using t1 t2 t3 a b b1 c c1 i by (simp add: tr)
qed

text \<open>
  The claim as the spec words it fails for the normalization stage: with
  \<open>from_error_handler\<close> set, the \<open>TypeError\<close> that \<open>make_response\<close> raises for a
  \<open>None\<close> value is not swallowed; it leaves \<open>finalize_request\<close> and nothing is logged.
\<close>

theorem finalize_request_counterexample:
  "finalize_request PNone True world1 = (Inl (TypeError none_body_msg), world1) \<and>
   isinstance_exn (TypeError none_body_msg) ''Exception''"
  by (simp add: finalize_request_run make_response_None TypeError_def isinstance_exn_def)

section \<open>Unhandled exceptions\<close>

lemma log_exception_run:
  "request_ctx_stack w \<noteq> [] \<Longrightarrow>
   log_exception w =
     (Inr (), w\<lparr>trace := trace w @
        [Logged (''Exception on '' @ req_path (ctx_request (last (request_ctx_stack w))) @
                 '' ['' @ req_method (ctx_request (last (request_ctx_stack w))) @ '']'')]\<rparr>)"
  by (simp add: log_exception_def request_proxy_def lookup_req_object_top bind_def emit_def)

lemma handle_exception_run:
  assumes "request_ctx_stack w \<noteq> []"
    and "find_error_handler InternalServerError
           (w\<lparr>trace := trace w @ [Signal ''got-request-exception'' [PExc e]]\<rparr>) = (Inr handler, w1)"
    and "request_ctx_stack w1 = request_ctx_stack w"
  shows "handle_exception e w =
     (if propagate_exceptions (app w1) then (Inl e, w1)
      else case handler of
        None \<Rightarrow>
          (Inr (PExc InternalServerError),
           w1\<lparr>trace := trace w1 @
             [Logged (''Exception on '' @ req_path (ctx_request (last (request_ctx_stack w))) @
                 '' ['' @ req_method (ctx_request (last (request_ctx_stack w))) @ '']'')]\<rparr>)
      | Some h \<Rightarrow>
          bind (call ErrorHandler h [PExc e]) (\<lambda>rv. finalize_request rv True)
            (w1\<lparr>trace := trace w1 @
             [Logged (''Exception on '' @ req_path (ctx_request (last (request_ctx_stack w))) @
                 '' ['' @ req_method (ctx_request (last (request_ctx_stack w))) @ '']'')]\<rparr>))"
  using assms
  by (simp add: handle_exception_def bind_def emit_def gets_def raise_def return_def
      log_exception_run split: option.split)

lemma propagate_exceptions_spec_update [simp]:
  "propagate_exceptions (a\<lparr>error_handler_spec := s\<rparr>) = propagate_exceptions a"
  by (simp add: propagate_exceptions_def split: option.split)

lemma handle_exception_cases:
  assumes "request_ctx_stack w \<noteq> []"
  shows "\<exists>spec'.
    (\<forall>name c. bucket spec' name c = bucket (error_handler_spec (app w)) name c) \<and>
    handle_exception e w =
     (if propagate_exceptions (app w)
      then (Inl e, w\<lparr>app := (app w)\<lparr>error_handler_spec := spec'\<rparr>,
              trace := trace w @ [Signal ''got-request-exception'' [PExc e]]\<rparr>)
      else case spec_find_error_handler (error_handler_spec (app w))
                  (req_blueprint (ctx_request (last (request_ctx_stack w)))) InternalServerError of
        None \<Rightarrow>
          (Inr (PExc InternalServerError),
           w\<lparr>app := (app w)\<lparr>error_handler_spec := spec'\<rparr>,
              trace := trace w @ [Signal ''got-request-exception'' [PExc e],
                Logged (''Exception on '' @ req_path (ctx_request (last (request_ctx_stack w))) @
                  '' ['' @ req_method (ctx_request (last (request_ctx_stack w))) @ '']'')]\<rparr>)
      | Some h \<Rightarrow>
          bind (call ErrorHandler h [PExc e]) (\<lambda>rv. finalize_request rv True)
            (w\<lparr>app := (app w)\<lparr>error_handler_spec := spec'\<rparr>,
              trace := trace w @ [Signal ''got-request-exception'' [PExc e],
                Logged (''Exception on '' @ req_path (ctx_request (last (request_ctx_stack w))) @
                  '' ['' @ req_method (ctx_request (last (request_ctx_stack w))) @ '']'')]\<rparr>))"
proof -
  let ?w0 = "w\<lparr>trace := trace w @ [Signal ''got-request-exception'' [PExc e]]\<rparr>"
  have i: "isinstance_exn InternalServerError ''Exception''"
    by (simp add: InternalServerError_def isinstance_exn_def)
  have s0: "request_ctx_stack ?w0 \<noteq> []"
    using assms by simp
  define spec' where "spec' = snd (find_error_handler_loop
      [(req_blueprint (ctx_request (last (request_ctx_stack w))),
        status_code_of InternalServerError),
       (None, status_code_of InternalServerError),
       (req_blueprint (ctx_request (last (request_ctx_stack w))), None), (None, None)]
      (exc_mro InternalServerError) (error_handler_spec (app w)))"
  have f: "find_error_handler InternalServerError ?w0 =
      (Inr (spec_find_error_handler (error_handler_spec (app w))
                  (req_blueprint (ctx_request (last (request_ctx_stack w)))) InternalServerError),
       w\<lparr>app := (app w)\<lparr>error_handler_spec := spec'\<rparr>,
              trace := trace w @ [Signal ''got-request-exception'' [PExc e]]\<rparr>)"
    unfolding find_error_handler_run [OF i s0] spec'_def
    by (simp add: find_error_handler_loop_result spec_find_error_handler_def)
  have b: "\<forall>name c. bucket spec' name c = bucket (error_handler_spec (app w)) name c"
    by (simp add: spec'_def find_error_handler_loop_bucket)
  have "handle_exception e w =
     (if propagate_exceptions (app w)
      then (Inl e, w\<lparr>app := (app w)\<lparr>error_handler_spec := spec'\<rparr>,
              trace := trace w @ [Signal ''got-request-exception'' [PExc e]]\<rparr>)
      else case spec_find_error_handler (error_handler_spec (app w))
                  (req_blueprint (ctx_request (last (request_ctx_stack w)))) InternalServerError of
        None \<Rightarrow>
          (Inr (PExc InternalServerError),
           w\<lparr>app := (app w)\<lparr>error_handler_spec := spec'\<rparr>,
              trace := trace w @ [Signal ''got-request-exception'' [PExc e],
                Logged (''Exception on '' @ req_path (ctx_request (last (request_ctx_stack w))) @
                  '' ['' @ req_method (ctx_request (last (request_ctx_stack w))) @ '']'')]\<rparr>)
      | Some h \<Rightarrow>
          bind (call ErrorHandler h [PExc e]) (\<lambda>rv. finalize_request rv True)
            (w\<lparr>app := (app w)\<lparr>error_handler_spec := spec'\<rparr>,
              trace := trace w @ [Signal ''got-request-exception'' [PExc e],
                Logged (''Exception on '' @ req_path (ctx_request (last (request_ctx_stack w))) @
                  '' ['' @ req_method (ctx_request (last (request_ctx_stack w))) @ '']'')]\<rparr>))"
    unfolding handle_exception_run [OF assms f, simplified]
    using assms by (simp split: option.split)
  then show ?thesis
    using b by blast
qed

lemma handle_exception_propagate:
  assumes "request_ctx_stack w \<noteq> []" and "propagate_exceptions (app w)"
  shows "fst (handle_exception e w) = Inl e \<and>
         trace (snd (handle_exception e w)) =
           trace w @ [Signal ''got-request-exception'' [PExc e]]"
  using handle_exception_cases [OF assms(1), of e] assms(2) by auto

text \<open>
  Claim C7, as the code has it. For an exception \<open>e\<close> given to \<open>handle_exception\<close>
  while a request is handled, the signal \<open>got-request-exception\<close> is sent and the handler
  for the status code 500 is looked up. When the propagation flag is true
  (\<open>PROPAGATE_EXCEPTIONS\<close> if set, else testing or debug) \<open>e\<close> is raised again and
  nothing is logged. When it is false the exception is logged with the path and the
  method of the request, and the result is the generic internal server error if no handler
  is registered, and otherwise the value of the handler finalized with
  \<open>from_error_handler\<close> set. The flag is read from the configuration of the application at
  the call: setting \<open>PROPAGATE_EXCEPTIONS\<close> before a failure decides that failure.
\<close>

theorem handle_exception_policy:
  assumes "request_ctx_stack w \<noteq> []"
    and "req = ctx_request (last (request_ctx_stack w))"
    and "logged = Logged (''Exception on '' @ req_path req @ '' ['' @ req_method req @ '']'')"
    and "handler = spec_find_error_handler (error_handler_spec (app w)) (req_blueprint req)
           InternalServerError"
  shows "propagate_exceptions (app w) =
           (case PROPAGATE_EXCEPTIONS (app w) of
              Some b \<Rightarrow> b
            | None \<Rightarrow> testing (app w) \<or> debug (app w)) \<and>
    (\<exists>spec'.
      (\<forall>name c. bucket spec' name c = bucket (error_handler_spec (app w)) name c) \<and>
      (propagate_exceptions (app w) \<longrightarrow>
         handle_exception e w =
           (Inl e, w\<lparr>app := (app w)\<lparr>error_handler_spec := spec'\<rparr>,
               trace := trace w @ [Signal ''got-request-exception'' [PExc e]]\<rparr>)) \<and>
      (\<not> propagate_exceptions (app w) \<and> handler = None \<longrightarrow>
         handle_exception e w =
           (Inr (PExc InternalServerError),
            w\<lparr>app := (app w)\<lparr>error_handler_spec := spec'\<rparr>,
               trace := trace w @ [Signal ''got-request-exception'' [PExc e], logged]\<rparr>)) \<and>
      (\<forall>h. \<not> propagate_exceptions (app w) \<and> handler = Some h \<longrightarrow>
         handle_exception e w =
           bind (call ErrorHandler h [PExc e]) (\<lambda>rv. finalize_request rv True)
             (w\<lparr>app := (app w)\<lparr>error_handler_spec := spec'\<rparr>,
               trace := trace w @ [Signal ''got-request-exception'' [PExc e], logged]\<rparr>))) \<and>
    fst (handle_exception e (w\<lparr>app := (app w)\<lparr>PROPAGATE_EXCEPTIONS := Some True\<rparr>\<rparr>)) = Inl e \<and>
    (handler = None \<longrightarrow>
       fst (handle_exception e (w\<lparr>app := (app w)\<lparr>PROPAGATE_EXCEPTIONS := Some False\<rparr>\<rparr>)) =
         Inr (PExc InternalServerError))"
proof -
  have p: "propagate_exceptions (app w) =
      (case PROPAGATE_EXCEPTIONS (app w) of Some b \<Rightarrow> b | None \<Rightarrow> testing (app w) \<or> debug (app w))"
    by (simp add: propagate_exceptions_def)
  obtain spec' where b: "\<forall>name c. bucket spec' name c = bucket (error_handler_spec (app w)) name c"
    and h: "handle_exception e w =
     (if propagate_exceptions (app w)
      then (Inl e, w\<lparr>app := (app w)\<lparr>error_handler_spec := spec'\<rparr>,
               trace := trace w @ [Signal ''got-request-exception'' [PExc e]]\<rparr>)
      else case handler of
        None \<Rightarrow>
          (Inr (PExc InternalServerError),
           w\<lparr>app := (app w)\<lparr>error_handler_spec := spec'\<rparr>,
               trace := trace w @ [Signal ''got-request-exception'' [PExc e], logged]\<rparr>)
      | Some h \<Rightarrow>
          bind (call ErrorHandler h [PExc e]) (\<lambda>rv. finalize_request rv True)
            (w\<lparr>app := (app w)\<lparr>error_handler_spec := spec'\<rparr>,
               trace := trace w @ [Signal ''got-request-exception'' [PExc e], logged]\<rparr>))"
    using handle_exception_cases [OF assms(1), of e] unfolding assms(2,3,4) by blast
  have t: "fst (handle_exception e (w\<lparr>app := (app w)\<lparr>PROPAGATE_EXCEPTIONS := Some True\<rparr>\<rparr>)) = Inl e"
    using handle_exception_propagate
      [of "w\<lparr>app := (app w)\<lparr>PROPAGATE_EXCEPTIONS := Some True\<rparr>\<rparr>" e] assms(1)
    by (simp add: propagate_exceptions_def)
  have f: "fst (handle_exception e (w\<lparr>app := (app w)\<lparr>PROPAGATE_EXCEPTIONS := Some False\<rparr>\<rparr>)) =
      Inr (PExc InternalServerError)" if "handler = None"
    using handle_exception_cases
      [of "w\<lparr>app := (app w)\<lparr>PROPAGATE_EXCEPTIONS := Some False\<rparr>\<rparr>" e] assms that
    by (auto simp: propagate_exceptions_def)
  have c: "(\<forall>name c. bucket spec' name c = bucket (error_handler_spec (app w)) name c) \<and>
      (propagate_exceptions (app w) \<longrightarrow>
         handle_exception e w =
           (Inl e, w\<lparr>app := (app w)\<lparr>error_handler_spec := spec'\<rparr>,
               trace := trace w @ [Signal ''got-request-exception'' [PExc e]]\<rparr>)) \<and>
      (\<not> propagate_exceptions (app w) \<and> handler = None \<longrightarrow>
         handle_exception e w =
           (Inr (PExc InternalServerError),
            w\<lparr>app := (app w)\<lparr>error_handler_spec := spec'\<rparr>,
               trace := trace w @ [Signal ''got-request-exception'' [PExc e], logged]\<rparr>)) \<and>
      (\<forall>h. \<not> propagate_exceptions (app w) \<and> handler = Some h \<longrightarrow>
         handle_exception e w =
           bind (call ErrorHandler h [PExc e]) (\<lambda>rv. finalize_request rv True)
             (w\<lparr>app := (app w)\<lparr>error_handler_spec := spec'\<rparr>,
               trace := trace w @ [Signal ''got-request-exception'' [PExc e], logged]\<rparr>))"
    using b by (simp add: h)
  show ?thesis
    using p t f c by blast
qed

text \<open>
  The claim as the spec words it fails in propagation mode: in testing mode the exception
  is raised again and the trace holds the signal only, no log record.
\<close>

theorem handle_exception_counterexample:
  "propagate_exceptions (app world_testing) \<and>
   fst (handle_exception (ValueError ''boom'') world_testing) = Inl (ValueError ''boom'') \<and>
   trace (snd (handle_exception (ValueError ''boom'') world_testing)) =
     [Signal ''got-request-exception'' [PExc (ValueError ''boom'')]]"
proof -
  have s: "request_ctx_stack world_testing \<noteq> []"
    by (simp add: world_testing_def world1_def)
  have p: "propagate_exceptions (app world_testing)"
    by (simp add: world_testing_def world1_def propagate_exceptions_def app0_def)
  have t: "trace world_testing = []"
    by (simp add: world_testing_def world1_def world0_def)
  show ?thesis
    using handle_exception_propagate [OF s p, of "ValueError ''boom''"] p by (simp add: t)
qed

theorem handle_exception_policy_witness:
  "request_ctx_stack world_testing \<noteq> [] \<and> propagate_exceptions (app world_testing) \<and>
   fst (handle_exception (ValueError ''boom'') world_testing) = Inl (ValueError ''boom'') \<and>
   request_ctx_stack world1 \<noteq> [] \<and> \<not> propagate_exceptions (app world1) \<and>
   spec_find_error_handler (error_handler_spec (app world1))
     (req_blueprint (ctx_request (last (request_ctx_stack world1)))) InternalServerError = None \<and>
   fst (handle_exception (ValueError ''boom'') world1) = Inr (PExc InternalServerError) \<and>
   trace (snd (handle_exception (ValueError ''boom'') world1)) =
     [Signal ''got-request-exception'' [PExc (ValueError ''boom'')],
      Logged ''Exception on / [GET]''] \<and>
   request_ctx_stack world_500 \<noteq> [] \<and> \<not> propagate_exceptions (app world_500) \<and>
   spec_find_error_handler (error_handler_spec (app world_500))
     (req_blueprint (ctx_request (last (request_ctx_stack world_500)))) InternalServerError =
     Some (const_callback ''server_error'' (PStr ''sorry'')) \<and>
   fst (handle_exception (ValueError ''boom'') world_500) =
     Inr (PResponse \<lparr>body = ''sorry'', status = ''200 OK'', status_code = 200, headers = [],
                     allow = []\<rparr>)"
proof -
  let ?e = "ValueError ''boom''"
  let ?h = "const_callback ''server_error'' (PStr ''sorry'')"
  have s: "request_ctx_stack world_testing \<noteq> []" "request_ctx_stack world1 \<noteq> []"
    "request_ctx_stack world_500 \<noteq> []"
    by (simp_all add: world_testing_def world_500_def world1_def)
  have p: "propagate_exceptions (app world_testing)" "\<not> propagate_exceptions (app world1)"
    "\<not> propagate_exceptions (app world_500)"
    by (simp_all add: world_testing_def world_500_def world1_def world0_def
        propagate_exceptions_def app0_def)
  have h1: "spec_find_error_handler (error_handler_spec (app world1))
      (req_blueprint (ctx_request (last (request_ctx_stack world1)))) InternalServerError = None"
    by (simp add: world1_def world0_def app0_def spec_find_error_handler_def bucket_def
        search_bucket_def first_handler_def InternalServerError_def)
  have h5: "spec_find_error_handler (error_handler_spec (app world_500))
      (req_blueprint (ctx_request (last (request_ctx_stack world_500)))) InternalServerError =
      Some ?h"
    by (simp add: world_500_def world1_def world0_def app0_def ctx0_def request0_def
        spec_find_error_handler_def bucket_def search_bucket_def first_handler_def
        InternalServerError_def status_code_of_def isinstance_exn_def)
  have r1: "req_path (ctx_request (last (request_ctx_stack world1))) = ''/''"
    "req_method (ctx_request (last (request_ctx_stack world1))) = ''GET''"
    "trace world1 = []"
    by (simp_all add: world1_def world0_def ctx0_def request0_def)
  obtain sa where "handle_exception ?e world_testing =
      (Inl ?e, world_testing\<lparr>app := (app world_testing)\<lparr>error_handler_spec := sa\<rparr>,
         trace := trace world_testing @ [Signal ''got-request-exception'' [PExc ?e]]\<rparr>)"
    using handle_exception_policy [OF s(1) refl refl refl, of ?e] p(1) by blast
  then have a: "fst (handle_exception ?e world_testing) = Inl ?e"
    by simp
  obtain sb where "handle_exception ?e world1 =
      (Inr (PExc InternalServerError),
       world1\<lparr>app := (app world1)\<lparr>error_handler_spec := sb\<rparr>,
         trace := trace world1 @ [Signal ''got-request-exception'' [PExc ?e],
           Logged (''Exception on '' @ req_path (ctx_request (last (request_ctx_stack world1))) @
             '' ['' @ req_method (ctx_request (last (request_ctx_stack world1))) @ '']'')]\<rparr>)"
    using handle_exception_policy [OF s(2) refl refl refl, of ?e] p(2) h1 by blast
  then have b: "fst (handle_exception ?e world1) = Inr (PExc InternalServerError)"
    "trace (snd (handle_exception ?e world1)) =
       [Signal ''got-request-exception'' [PExc ?e], Logged ''Exception on / [GET]'']"
    by (simp_all add: r1)
  obtain sc where c0: "handle_exception ?e world_500 =
      bind (call ErrorHandler ?h [PExc ?e]) (\<lambda>rv. finalize_request rv True)
       (world_500\<lparr>app := (app world_500)\<lparr>error_handler_spec := sc\<rparr>,
         trace := trace world_500 @ [Signal ''got-request-exception'' [PExc ?e],
           Logged (''Exception on '' @ req_path (ctx_request (last (request_ctx_stack world_500))) @
             '' ['' @ req_method (ctx_request (last (request_ctx_stack world_500))) @ '']'')]\<rparr>)"
    using handle_exception_policy [OF s(3) refl refl refl, of ?e] p(3) h5 by blast
  have c: "fst (handle_exception ?e world_500) =
      Inr (PResponse \<lparr>body = ''sorry'', status = ''200 OK'', status_code = 200, headers = [],
                      allow = []\<rparr>)"
    unfolding c0
    by (simp add: bind_def call_def const_callback_def finalize_request_run make_response_text
        is_text_def world_500_def world1_def world0_def app0_def Response_defs
        process_response_def request_ctx_top_run ctx0_def request0_def get_funcs_def
        blueprint_funcs_def gets_def return_def lift_def)
  show ?thesis
    using s p h1 h5 a b c by simp
qed

end
